theory Spec2Isabelle
  imports Complex_Main "HOL-Library.Log_Nat"
begin

section \<open>JavaScript values of the provider's envelopes\<close>

text \<open>
  Strings are lists of 8-bit characters read as ASCII text. Times are integers: milliseconds
  since the epoch, which is what \<^verbatim>\<open>Date.now()\<close> and \<^verbatim>\<open>getTime()\<close> return and
  what an ISO timestamp written by this code stands for. A JavaScript number is the rational
  it denotes; every arithmetic operation of the code rounds its exact result to binary64
  (\<open>double\<close> below).

  A field of a JSON object read by the code is absent (\<^verbatim>\<open>undefined\<close>), \<^verbatim>\<open>null\<close>, or a value
  of the type the provider documents for it.
\<close>

datatype 'a js = Undefined | Null | Val 'a

text \<open>\<^verbatim>\<open>x?.f\<close>: the field of a value, \<^verbatim>\<open>undefined\<close> when \<^verbatim>\<open>x\<close> is nullish.\<close>

fun opt_chain :: "'a js \<Rightarrow> ('a \<Rightarrow> 'b js) \<Rightarrow> 'b js" where
  "opt_chain (Val x) f = f x"
| "opt_chain Null f = Undefined"
| "opt_chain Undefined f = Undefined"

text \<open>\<^verbatim>\<open>xs?.[0]\<close>: the first element of an array, \<^verbatim>\<open>undefined\<close> when there is none.\<close>

fun first :: "'a js list js \<Rightarrow> 'a js" where
  "first (Val (x # xs)) = x"
| "first (Val []) = Undefined"
| "first Null = Undefined"
| "first Undefined = Undefined"

text \<open>Truthiness of a string field: a non-empty string.\<close>

fun truthy :: "string js \<Rightarrow> bool" where
  "truthy (Val s) = (s \<noteq> [])"
| "truthy Null = False"
| "truthy Undefined = False"

text \<open>\<^verbatim>\<open>x || d\<close> for a string field \<^verbatim>\<open>x\<close> and a string literal \<^verbatim>\<open>d\<close>.\<close>

fun or_else :: "string js \<Rightarrow> string \<Rightarrow> string" where
  "or_else (Val s) d = (if s \<noteq> [] then s else d)"
| "or_else Null d = d"
| "or_else Undefined d = d"

text \<open>\<^verbatim>\<open>String(x)\<close>, as a template literal and a PostgREST filter render a field.\<close>

fun js_String :: "string js \<Rightarrow> string" where
  "js_String (Val s) = s"
| "js_String Null = ''null''"
| "js_String Undefined = ''undefined''"

text \<open>What a database column holds for a field sent in an insert: NULL for a nullish one.\<close>

fun column :: "'a js \<Rightarrow> 'a option" where
  "column (Val x) = Some x"
| "column Null = None"
| "column Undefined = None"

subsection \<open>Whitespace, digits, number rendering\<close>

text \<open>The characters \<^verbatim>\<open>/\s/\<close>, \<^verbatim>\<open>trim\<close> and \<^verbatim>\<open>parseInt\<close> treat as white space (ASCII).\<close>

definition is_space :: "char \<Rightarrow> bool" where
  "is_space c = (c = CHR 0x09 \<or> c = CHR 0x0A \<or> c = CHR 0x0B \<or> c = CHR 0x0C \<or> c = CHR 0x0D
     \<or> c = CHR 0x20)"

definition js_trim :: "string \<Rightarrow> string" where
  "js_trim s = rev (dropWhile is_space (rev (dropWhile is_space s)))"

text \<open>\<^verbatim>\<open>s.replace(/\+/g, '').replace(/\s/g, '')\<close>: the cleaning of a phone number.\<close>

definition strip_plus_spaces :: "string \<Rightarrow> string" where
  "strip_plus_spaces s = filter (\<lambda>c. \<not> is_space c) (filter (\<lambda>c. c \<noteq> CHR ''+'') s)"

definition digit_char :: "nat \<Rightarrow> char" where
  "digit_char d = char_of (48 + d)"

fun show_nat :: "nat \<Rightarrow> string" where
  "show_nat n = (if n < 10 then [digit_char n] else show_nat (n div 10) @ [digit_char (n mod 10)])"

declare show_nat.simps [simp del]

definition show_int :: "int \<Rightarrow> string" where
  "show_int i = (if i < 0 then CHR ''-'' # show_nat (nat (- i)) else show_nat (nat i))"

text \<open>The value of a digit in a radix, if the character is one.\<close>

definition digit_value :: "nat \<Rightarrow> char \<Rightarrow> nat option" where
  "digit_value radix c =
     (let k = (of_char c :: nat);
          v = (if 48 \<le> k \<and> k \<le> 57 then Some (k - 48)
               else if 97 \<le> k \<and> k \<le> 122 then Some (k - 87)
               else if 65 \<le> k \<and> k \<le> 90 then Some (k - 55)
               else None)
      in case v of None \<Rightarrow> None | Some d \<Rightarrow> if d < radix then Some d else None)"

fun digits_value :: "nat \<Rightarrow> nat \<Rightarrow> string \<Rightarrow> nat" where
  "digits_value radix acc [] = acc"
| "digits_value radix acc (c # cs) =
     digits_value radix (acc * radix + (case digit_value radix c of Some d \<Rightarrow> d | None \<Rightarrow> 0)) cs"

text \<open>
  \<^verbatim>\<open>parseInt(s)\<close> with no radix: leading white space, a sign, a \<^verbatim>\<open>0x\<close> prefix for
  radix 16, then the longest run of digits; \<^verbatim>\<open>NaN\<close> (here \<open>None\<close>) when the run is empty.
\<close>

definition js_parseInt :: "string \<Rightarrow> int option" where
  "js_parseInt s =
     (let s1 = dropWhile is_space s;
          neg = (s1 \<noteq> [] \<and> hd s1 = CHR ''-'');
          s2 = (if s1 \<noteq> [] \<and> (hd s1 = CHR ''-'' \<or> hd s1 = CHR ''+'') then tl s1 else s1);
          hex = (take 2 s2 = ''0x'' \<or> take 2 s2 = ''0X'');
          radix = (if hex then 16 else 10);
          s3 = (if hex then drop 2 s2 else s2);
          ds = takeWhile (\<lambda>c. digit_value radix c \<noteq> None) s3
      in if ds = [] then None
         else Some ((if neg then - 1 else 1) * int (digits_value radix 0 ds)))"

text \<open>
  \<^verbatim>\<open>new Date(parseInt(t) * 1000).toISOString()\<close>: the time in milliseconds, or the
  \<^verbatim>\<open>RangeError\<close> of \<^verbatim>\<open>toISOString\<close> on an invalid date (\<open>None\<close>): \<^verbatim>\<open>NaN\<close>, or a time
  beyond 8.64e15 ms from the epoch.
\<close>

definition seconds_toISOString :: "string js \<Rightarrow> int option" where
  "seconds_toISOString t =
     (case js_parseInt (js_String t) of
        None \<Rightarrow> None
      | Some n \<Rightarrow> if \<bar>n * 1000\<bar> \<le> 8640000000000000 then Some (n * 1000) else None)"

subsection \<open>Binary64 arithmetic\<close>

text \<open>
  The exponent of a positive number: the \<open>e\<close> with \<open>2^e \<le> x < 2^(e+1)\<close>, from the bit length
  of the integer part of \<open>x\<close>, or of \<open>1 / x\<close> rounded up when \<open>x\<close> is below 1.
\<close>

definition binade :: "rat \<Rightarrow> int" where
  "binade x = (if 1 \<le> x then bitlen \<lfloor>x\<rfloor> - 1 else - bitlen (\<lceil>1 / x\<rceil> - 1))"

text \<open>The nearest integer, a half rounded to the even neighbour.\<close>

definition round_half_even :: "rat \<Rightarrow> int" where
  "round_half_even x =
     (if x - of_int \<lfloor>x\<rfloor> < 1 / 2 then \<lfloor>x\<rfloor>
      else if 1 / 2 < x - of_int \<lfloor>x\<rfloor> then \<lfloor>x\<rfloor> + 1
      else if even \<lfloor>x\<rfloor> then \<lfloor>x\<rfloor> else \<lfloor>x\<rfloor> + 1)"

text \<open>
  The binary64 number nearest to \<open>x\<close> (ties to the even significand): \<open>x\<close> rounded to a
  multiple of \<open>2^(e - 52)\<close>, a significand of 53 bits. The exponent is not limited: the
  numbers of the handlers (differences of times in milliseconds, hours, hundredths of hours)
  are far from the subnormal numbers and from overflow.
\<close>

definition double :: "rat \<Rightarrow> rat" where
  "double x =
     (if x = 0 then 0
      else sgn x * of_int (round_half_even (\<bar>x\<bar> / 2 powi (binade \<bar>x\<bar> - 52)))
             * 2 powi (binade \<bar>x\<bar> - 52))"

text \<open>\<^verbatim>\<open>Math.round\<close>: the nearest integer, a half rounded up.\<close>

definition Math_round :: "rat \<Rightarrow> rat" where
  "Math_round x = of_int \<lfloor>x + 1 / 2\<rfloor>"

text \<open>\<^verbatim>\<open>x.toFixed(1)\<close> for a number that is not negative.\<close>

definition toFixed1 :: "rat \<Rightarrow> string" where
  "toFixed1 x =
     (let n = nat \<lfloor>x * 10 + 1 / 2\<rfloor>
      in show_nat (n div 10) @ ''.'' @ show_nat (n mod 10))"


section \<open>Data model\<close>

subsection \<open>The webhook envelope\<close>

text \<open>
  The JSON body of a webhook delivery, with the fields the code reads. Every field may be
  absent or \<^verbatim>\<open>null\<close>; an array element may be \<^verbatim>\<open>null\<close>.
\<close>

record wa_text =
  t_body :: "string js"

record wa_media =
  md_id :: "string js"
  md_mime_type :: "string js"
  md_caption :: "string js"

record wa_message =
  m_id :: "string js"
  m_from :: "string js"
  m_timestamp :: "string js"
  m_type :: "string js"
  m_text :: "wa_text js"
  m_image :: "wa_media js"
  m_video :: "wa_media js"
  m_audio :: "wa_media js"
  m_document :: "wa_media js"

record wa_status =
  st_id :: "string js"
  st_status :: "string js"

record wa_metadata =
  phone_number_id :: "string js"

record wa_value =
  wv_messages :: "wa_message js list js"
  wv_statuses :: "wa_status js list js"
  wv_metadata :: "wa_metadata js"

record wa_change =
  ch_field :: "string js"
  ch_value :: "wa_value js"

record wa_entry =
  en_changes :: "wa_change js list js"

record wa_body =
  entry :: "wa_entry js list js"

subsection \<open>The provider's reply to a send\<close>

record graph_error =
  ge_message :: "string js"

record graph_message =
  gm_id :: "string js"

record graph_data =
  d_error :: "graph_error js"
  d_messages :: "graph_message js list js"

subsection \<open>Tables\<close>

text \<open>
  The columns of \<^verbatim>\<open>messages\<close> that the code writes or reads (\<^verbatim>\<open>id\<close>, \<^verbatim>\<open>created_at\<close>,
  \<^verbatim>\<open>updated_at\<close>, \<^verbatim>\<open>is_read\<close> and \<^verbatim>\<open>response_time_ms\<close> are filled by the database
  and read by none of the functions below). A nullable column is an option.
\<close>

datatype direction = Inbound | Outbound

datatype metadata = Graph_reply graph_data | Webhook_payload wa_body

record message_row =
  message_id :: string
  phone_number :: string
  from_number :: string
  to_number :: string
  body :: "string option"
  direction :: direction
  status :: "string option"
  timestamp :: int
  message_type :: "string option"
  media_url :: "string option"
  media_mime_type :: "string option"
  caption :: "string option"
  is_ai_response :: bool
  metadata :: metadata

datatype log_payload = Logged_body wa_body | Logged_error string

record log_row =
  event_type :: string
  payload :: log_payload
  processed :: bool
  error :: "string option"

record store =
  messages :: "message_row list"
  webhook_logs :: "log_row list"

section \<open>The store's contract\<close>

text \<open>
  The database is an external collaborator. Its rows change as the schema of the
  repository's setup script says: \<^verbatim>\<open>message_id TEXT UNIQUE NOT NULL\<close>, \<^verbatim>\<open>NOT NULL\<close> on
  \<^verbatim>\<open>phone_number\<close>, \<^verbatim>\<open>from_number\<close>, \<^verbatim>\<open>to_number\<close>, \<^verbatim>\<open>message_type TEXT DEFAULT 'text'\<close>,
  and \<^verbatim>\<open>timestamp TIMESTAMPTZ NOT NULL\<close>.
  Beyond that, every call can fail for reasons of its own (network, permissions): the
  caller's environment supplies a \<open>fault\<close> for each call. A call with \<open>DbError\<close> resolves
  with \<^verbatim>\<open>{data: null, error}\<close>; one with \<open>Throws\<close> rejects with an \<^verbatim>\<open>Error\<close> of that message.
\<close>

datatype fault = NoFault | DbError | Throws string

datatype 'a db_result = Db_throws string | Db_error | Db_data 'a

text \<open>The object passed to \<^verbatim>\<open>from('messages').insert\<close>.\<close>

record message_values =
  ins_message_id :: "string js"
  ins_phone_number :: "string js"
  ins_from_number :: "string js"
  ins_to_number :: "string js"
  ins_body :: "string js"
  ins_direction :: direction
  ins_status :: "string js"
  ins_timestamp :: int
  ins_message_type :: "string js"
  ins_media_url :: "string js"
  ins_media_mime_type :: "string js"
  ins_caption :: "string js"
  ins_is_ai_response :: bool
  ins_metadata :: metadata

text \<open>The row the values make, unless a \<^verbatim>\<open>NOT NULL\<close> column would be NULL.\<close>

definition row_of :: "message_values \<Rightarrow> message_row option" where
  "row_of v =
     (if column (ins_message_id v) = None \<or> column (ins_phone_number v) = None
         \<or> column (ins_from_number v) = None \<or> column (ins_to_number v) = None
      then None
      else Some \<lparr>message_id = js_String (ins_message_id v),
             phone_number = js_String (ins_phone_number v),
             from_number = js_String (ins_from_number v),
             to_number = js_String (ins_to_number v),
             body = column (ins_body v), direction = ins_direction v,
             status = column (ins_status v), timestamp = ins_timestamp v,
             message_type =
               (case ins_message_type v of Undefined \<Rightarrow> Some ''text'' | Null \<Rightarrow> None
                | Val t \<Rightarrow> Some t),
             media_url = column (ins_media_url v),
             media_mime_type = column (ins_media_mime_type v),
             caption = column (ins_caption v),
             is_ai_response = ins_is_ai_response v, metadata = ins_metadata v\<rparr>)"

text \<open>
  The times whose \<^verbatim>\<open>toISOString()\<close> text a \<^verbatim>\<open>TIMESTAMPTZ\<close> column reads: the years 0001 to
  9999, written with four digits. Beyond them \<^verbatim>\<open>toISOString\<close> writes a signed year of six
  digits, which the database refuses; and it refuses the year 0000, which it does not have.
  The bounds are 0001-01-01T00:00:00.000Z and 9999-12-31T23:59:59.999Z.
\<close>

definition timestamptz_accepts :: "int \<Rightarrow> bool" where
  "timestamptz_accepts t = (- 62135596800000 \<le> t \<and> t \<le> 253402300799999)"

text \<open>
  \<^verbatim>\<open>from('messages').insert(v).select()\<close>: the row is appended and returned, unless the
  database rejects it (a NULL, a timestamp it cannot read, or a \<^verbatim>\<open>message_id\<close> that a
  row already has).
\<close>

definition insert_message ::
  "fault \<Rightarrow> message_values \<Rightarrow> store \<Rightarrow> message_row list db_result \<times> store" where
  "insert_message f v s =
     (case f of
        Throws e \<Rightarrow> (Db_throws e, s)
      | DbError \<Rightarrow> (Db_error, s)
      | NoFault \<Rightarrow>
          (case row_of v of
             None \<Rightarrow> (Db_error, s)
           | Some r \<Rightarrow>
               if \<not> timestamptz_accepts (timestamp r) then (Db_error, s)
               else if message_id r \<in> set (map message_id (messages s)) then (Db_error, s)
               else (Db_data [r], s\<lparr>messages := messages s @ [r]\<rparr>)))"

text \<open>\<^verbatim>\<open>from('webhook_logs').insert(row)\<close>.\<close>

definition insert_log :: "fault \<Rightarrow> log_row \<Rightarrow> store \<Rightarrow> unit db_result \<times> store" where
  "insert_log f l s =
     (case f of
        Throws e \<Rightarrow> (Db_throws e, s)
      | DbError \<Rightarrow> (Db_error, s)
      | NoFault \<Rightarrow> (Db_data (), s\<lparr>webhook_logs := webhook_logs s @ [l]\<rparr>))"

text \<open>
  \<^verbatim>\<open>from('messages').update({status: st}).eq('message_id', mid)\<close>: the filter compares the
  column with the rendering of \<^verbatim>\<open>mid\<close>; an absent \<^verbatim>\<open>st\<close> leaves the object empty and
  the rows as they are, a \<^verbatim>\<open>null\<close> one sets the column to NULL.
\<close>

definition update_status :: "fault \<Rightarrow> string js \<Rightarrow> string js \<Rightarrow> store \<Rightarrow> unit db_result \<times> store" where
  "update_status f st mid s =
     (case f of
        Throws e \<Rightarrow> (Db_throws e, s)
      | DbError \<Rightarrow> (Db_error, s)
      | NoFault \<Rightarrow>
          (Db_data (),
           case st of
             Undefined \<Rightarrow> s
           | Null \<Rightarrow> s\<lparr>messages :=
               map (\<lambda>r. if message_id r = js_String mid then r\<lparr>status := None\<rparr> else r) (messages s)\<rparr>
           | Val x \<Rightarrow> s\<lparr>messages :=
               map (\<lambda>r. if message_id r = js_String mid then r\<lparr>status := Some x\<rparr> else r) (messages s)\<rparr>))"

text \<open>
  \<^verbatim>\<open>order('timestamp', {ascending: false})\<close>: newest first; rows of equal time stay in
  stored order (the database leaves their order open).
\<close>

definition order_desc :: "message_row list \<Rightarrow> message_row list" where
  "order_desc rs = sort_key (\<lambda>r. - timestamp r) rs"

section \<open>Human-activity gate: \<^verbatim>\<open>GET /api/check-human\<close>\<close>

text \<open>
  The query of the handler: outbound rows of the phone number that are not AI responses
  and not older than \<open>since\<close>, newest first, at most one.
\<close>

definition select_last_human :: "fault \<Rightarrow> string \<Rightarrow> int \<Rightarrow> store \<Rightarrow> message_row list db_result" where
  "select_last_human f phone since s =
     (case f of
        Throws e \<Rightarrow> Db_throws e
      | DbError \<Rightarrow> Db_error
      | NoFault \<Rightarrow>
          Db_data (take 1 (order_desc (filter
            (\<lambda>r. phone_number r = phone \<and> direction r = Outbound \<and> is_ai_response r = False
                 \<and> since \<le> timestamp r)
            (messages s)))))"

record check_result =
  phoneNumber :: string
  humanActive :: bool
  lastHumanResponseTime :: "int option"
  hoursRemaining :: rat
  message :: string

text \<open>The JSON bodies of the handler: an error object (with its \<^verbatim>\<open>humanActive\<close> and, on 400, its \<^verbatim>\<open>example\<close>), or the result.\<close>

datatype check_body = Check_failed string bool "string option" | Check_ok check_result

record 'b response =
  http_status :: nat
  http_body :: 'b

fun body_humanActive :: "check_body \<Rightarrow> bool" where
  "body_humanActive (Check_failed e h x) = h"
| "body_humanActive (Check_ok r) = humanActive r"

text \<open>
  The handler reads the clock twice: \<open>now1\<close> for the query's lower bound, \<open>now2\<close> for the
  hours elapsed. \<open>phone\<close> is \<^verbatim>\<open>searchParams.get('phone')\<close>. The handler only reads the store.
  The difference of the two times, the division by the milliseconds of an hour, the
  subtraction from 2, the product with 100 and the division by 100 each round to binary64;
  \<^verbatim>\<open>Math.max\<close> and \<^verbatim>\<open>Math.round\<close> are exact.
\<close>

definition check_human_GET ::
  "fault \<Rightarrow> int \<Rightarrow> int \<Rightarrow> string option \<Rightarrow> store \<Rightarrow> check_body response" where
  "check_human_GET f now1 now2 phone s =
     (case phone of
        None \<Rightarrow> \<lparr>http_status = 400, http_body =
          Check_failed ''Phone number is required as query parameter'' False
            (Some ''Use: /api/check-human?phone=254768322488'')\<rparr>
      | Some phone_param \<Rightarrow>
          if phone_param = [] then \<lparr>http_status = 400, http_body =
            Check_failed ''Phone number is required as query parameter'' False
              (Some ''Use: /api/check-human?phone=254768322488'')\<rparr>
          else
            let cleanPhoneNumber = js_trim (strip_plus_spaces phone_param);
                twoHoursAgo = now1 - 2 * 60 * 60 * 1000
            in (case select_last_human f cleanPhoneNumber twoHoursAgo s of
                 Db_throws e \<Rightarrow> \<lparr>http_status = 500, http_body =
                   Check_failed ''Failed to check conversation status'' False None\<rparr>
               | Db_error \<Rightarrow> \<lparr>http_status = 500, http_body =
                   Check_failed ''Failed to check conversation status'' False None\<rparr>
               | Db_data [] \<Rightarrow> \<lparr>http_status = 200, http_body = Check_ok
                   \<lparr>phoneNumber = cleanPhoneNumber, humanActive = False,
                    lastHumanResponseTime = None,
                    hoursRemaining = double (Math_round (double (0 * 100)) / 100),
                    message = ''No human activity detected - AI can respond''\<rparr>\<rparr>
               | Db_data (lastMessage # rest) \<Rightarrow>
                  (let messageTime = timestamp lastMessage;
                       hoursElapsed = double (double (rat_of_int (now2 - messageTime)) / (1000 * 60 * 60));
                       hoursRem = max 0 (double (2 - hoursElapsed));
                       active = (hoursRem > 0)
                   in \<lparr>http_status = 200, http_body = Check_ok
                        \<lparr>phoneNumber = cleanPhoneNumber, humanActive = active,
                         lastHumanResponseTime = Some messageTime,
                         hoursRemaining = double (Math_round (double (hoursRem * 100)) / 100),
                         message =
                           (if active
                            then ''Human is active - AI should wait '' @ toFixed1 hoursRem @ '' more hours''
                            else ''No human activity detected - AI can respond'')\<rparr>\<rparr>)))"

section \<open>Webhook receiver\<close>

text \<open>The environment variables the handlers read; an unset one is \<^verbatim>\<open>undefined\<close>.\<close>

record env =
  WEBHOOK_VERIFY_TOKEN :: "string option"
  WHATSAPP_PHONE_NUMBER_ID :: "string option"
  WHATSAPP_ACCESS_TOKEN :: "string option"

subsection \<open>\<^verbatim>\<open>GET /api/webhook\<close>: verification\<close>

text \<open>
  \<open>mode\<close>, \<open>token\<close> and \<open>challenge\<close> are the results of \<^verbatim>\<open>searchParams.get\<close>: \<^verbatim>\<open>null\<close> (\<open>None\<close>)
  for a missing parameter. \<^verbatim>\<open>token === process.env.WEBHOOK_VERIFY_TOKEN\<close> compares
  a string or \<^verbatim>\<open>null\<close> with a string or \<^verbatim>\<open>undefined\<close>: \<^verbatim>\<open>null\<close> is never equal to
  \<^verbatim>\<open>undefined\<close>. The body of the response is the challenge (empty for \<^verbatim>\<open>null\<close>) or
  the text \<^verbatim>\<open>Forbidden\<close>. Nothing in the \<^verbatim>\<open>try\<close> block throws, and the handler has no
  store call: the store comes back as it was.
\<close>

definition webhook_GET ::
  "env \<Rightarrow> string option \<Rightarrow> string option \<Rightarrow> string option \<Rightarrow> store \<Rightarrow> string option response \<times> store" where
  "webhook_GET e mode token challenge s =
     (if mode = Some ''subscribe'' \<and> token \<noteq> None \<and> token = WEBHOOK_VERIFY_TOKEN e
      then (\<lparr>http_status = 200, http_body = challenge\<rparr>, s)
      else (\<lparr>http_status = 403, http_body = Some ''Forbidden''\<rparr>, s))"

subsection \<open>\<^verbatim>\<open>storeInboundMessage\<close>\<close>

definition first_change :: "wa_body \<Rightarrow> wa_change js" where
  "first_change b = first (opt_chain (first (entry b)) en_changes)"

definition first_value :: "wa_body \<Rightarrow> wa_value js" where
  "first_value b = opt_chain (first_change b) ch_value"

text \<open>
  The \<^verbatim>\<open>switch\<close> on the message type: the body text, the media id, the MIME type and the
  caption (the last three start as \<^verbatim>\<open>null\<close>).
\<close>

definition message_content :: "wa_message \<Rightarrow> string \<times> string js \<times> string js \<times> string js" where
  "message_content m =
     (if m_type m = Val ''text'' then
        (or_else (opt_chain (m_text m) t_body) [], Null, Null, Null)
      else if m_type m = Val ''image'' then
        (or_else (opt_chain (m_image m) md_caption) ''[Image]'', opt_chain (m_image m) md_id,
         opt_chain (m_image m) md_mime_type, opt_chain (m_image m) md_caption)
      else if m_type m = Val ''video'' then
        (or_else (opt_chain (m_video m) md_caption) ''[Video]'', opt_chain (m_video m) md_id,
         opt_chain (m_video m) md_mime_type, opt_chain (m_video m) md_caption)
      else if m_type m = Val ''audio'' then
        (''[Audio]'', opt_chain (m_audio m) md_id, opt_chain (m_audio m) md_mime_type, Null)
      else if m_type m = Val ''document'' then
        (or_else (opt_chain (m_document m) md_caption) ''[Document]'', opt_chain (m_document m) md_id,
         opt_chain (m_document m) md_mime_type, opt_chain (m_document m) md_caption)
      else (''['' @ js_String (m_type m) @ '']'', Null, Null, Null))"

text \<open>
  The result is the thrown error's message (\<open>Inl\<close>), or the stored row or \<^verbatim>\<open>null\<close>, with
  the store after the call. \<^verbatim>\<open>toISOString\<close> throws a \<^verbatim>\<open>RangeError\<close> before anything is
  written; an insert that resolves with an error gives \<^verbatim>\<open>null\<close>.
\<close>

definition storeInboundMessage ::
  "fault \<Rightarrow> wa_body \<Rightarrow> store \<Rightarrow> (string + message_row option) \<times> store" where
  "storeInboundMessage f webhookData s =
     (case first (opt_chain (first_value webhookData) wv_messages) of
        Undefined \<Rightarrow> (Inr None, s)
      | Null \<Rightarrow> (Inr None, s)
      | Val m \<Rightarrow>
         (case seconds_toISOString (m_timestamp m) of
            None \<Rightarrow> (Inl ''Invalid time value'', s)
          | Some ts \<Rightarrow>
             (case message_content m of (text, mediaUrl, mediaMimeType, capt) \<Rightarrow>
               (case insert_message f
                   \<lparr>ins_message_id = m_id m, ins_phone_number = m_from m,
                    ins_from_number = m_from m,
                    ins_to_number = Val (or_else
                      (opt_chain (opt_chain (first_value webhookData) wv_metadata) phone_number_id) []),
                    ins_body = Val text, ins_direction = Inbound, ins_status = Val ''received'',
                    ins_timestamp = ts, ins_message_type = m_type m, ins_media_url = mediaUrl,
                    ins_media_mime_type = mediaMimeType, ins_caption = capt,
                    ins_is_ai_response = False, ins_metadata = Webhook_payload webhookData\<rparr> s of
                  (Db_throws e, s') \<Rightarrow> (Inl e, s')
                | (Db_error, s') \<Rightarrow> (Inr None, s')
                | (Db_data [], s') \<Rightarrow> (Inr None, s')
                | (Db_data (r # rs), s') \<Rightarrow> (Inr (Some r), s')))))"

subsection \<open>\<^verbatim>\<open>POST /api/webhook\<close>: event delivery\<close>

text \<open>
  What \<^verbatim>\<open>request.json()\<close> gives: a rejection (the text is not JSON), \<^verbatim>\<open>null\<close>, or an
  envelope.
\<close>

datatype webhook_request = Not_json string | Json_null | Json_body wa_body

text \<open>
  The environment of one delivery: whether each \<^verbatim>\<open>import('@/lib/whatsapp')\<close> rejects (with
  which message), and the fault of each store call, in the order of the code; the status
  updates of the loop are numbered from 0.
\<close>

record webhook_faults =
  f_import :: "string option"
  f_log_received :: fault
  f_store :: fault
  f_log_message :: fault
  f_update :: "nat \<Rightarrow> fault"
  f_log_status :: fault
  f_import_catch :: "string option"
  f_log_error :: fault

text \<open>The message of the \<^verbatim>\<open>TypeError\<close> for a property read on \<^verbatim>\<open>null\<close>.\<close>

definition TypeError_null :: string where
  "TypeError_null = ''Cannot read properties of null''"

text \<open>\<^verbatim>\<open>xs && xs.length > 0\<close>.\<close>

fun non_empty :: "'a list js \<Rightarrow> bool" where
  "non_empty (Val xs) = (xs \<noteq> [])"
| "non_empty Null = False"
| "non_empty Undefined = False"

fun elements :: "'a list js \<Rightarrow> 'a list" where
  "elements (Val xs) = xs"
| "elements Null = []"
| "elements Undefined = []"

text \<open>
  The loop over the statuses. A \<^verbatim>\<open>null\<close> element makes \<^verbatim>\<open>status.id\<close> throw; an update
  that resolves with an error is logged to the console and the loop goes on.
\<close>

fun update_statuses :: "(nat \<Rightarrow> fault) \<Rightarrow> nat \<Rightarrow> wa_status js list \<Rightarrow> store \<Rightarrow> (string + unit) \<times> store" where
  "update_statuses f i [] s = (Inr (), s)"
| "update_statuses f i (Val st # sts) s =
     (case update_status (f i) (st_status st) (st_id st) s of
        (Db_throws e, s') \<Rightarrow> (Inl e, s')
      | (Db_error, s') \<Rightarrow> update_statuses f (Suc i) sts s'
      | (Db_data u, s') \<Rightarrow> update_statuses f (Suc i) sts s')"
| "update_statuses f i (Null # sts) s = (Inl TypeError_null, s)"
| "update_statuses f i (Undefined # sts) s = (Inl TypeError_null, s)"

text \<open>The \<^verbatim>\<open>try\<close> block: \<open>Inl\<close> the message of the error thrown, with the store at that point.\<close>

definition webhook_POST_try :: "webhook_faults \<Rightarrow> webhook_request \<Rightarrow> store \<Rightarrow> (string + unit) \<times> store" where
  "webhook_POST_try fl req s =
     (case req of
        Not_json e \<Rightarrow> (Inl e, s)
      | Json_null \<Rightarrow>
          (case f_import fl of Some e \<Rightarrow> (Inl e, s) | None \<Rightarrow> (Inl TypeError_null, s))
      | Json_body b \<Rightarrow>
          (case f_import fl of
             Some e \<Rightarrow> (Inl e, s)
           | None \<Rightarrow>
              (case insert_log (f_log_received fl)
                  \<lparr>event_type = or_else (opt_chain (first_change b) ch_field) ''unknown'',
                   payload = Logged_body b, processed = False, error = None\<rparr> s of
                 (Db_throws e, s1) \<Rightarrow> (Inl e, s1)
               | (r1, s1) \<Rightarrow>
                  if non_empty (opt_chain (first_value b) wv_messages) then
                    (case storeInboundMessage (f_store fl) b s1 of
                       (Inl e, s2) \<Rightarrow> (Inl e, s2)
                     | (Inr None, s2) \<Rightarrow> (Inr (), s2)
                     | (Inr (Some storedMessage), s2) \<Rightarrow>
                         (case insert_log (f_log_message fl)
                             \<lparr>event_type = ''message_received'', payload = Logged_body b,
                              processed = True, error = None\<rparr> s2 of
                            (Db_throws e, s3) \<Rightarrow> (Inl e, s3)
                          | (r3, s3) \<Rightarrow> (Inr (), s3)))
                  else if non_empty (opt_chain (first_value b) wv_statuses) then
                    (case update_statuses (f_update fl) 0
                            (elements (opt_chain (first_value b) wv_statuses)) s1 of
                       (Inl e, s2) \<Rightarrow> (Inl e, s2)
                     | (Inr u, s2) \<Rightarrow>
                         (case insert_log (f_log_status fl)
                             \<lparr>event_type = ''status_update'', payload = Logged_body b,
                              processed = True, error = None\<rparr> s2 of
                            (Db_throws e, s3) \<Rightarrow> (Inl e, s3)
                          | (r3, s3) \<Rightarrow> (Inr (), s3)))
                  else (Inr (), s1))))"

text \<open>The \<^verbatim>\<open>status\<close> field of the JSON body of the acknowledgment.\<close>

datatype ack = Status string

text \<open>
  The handler: the \<^verbatim>\<open>catch\<close> block logs the error (its own failure is caught and only
  printed) and acknowledges with 200 as well.
\<close>

definition webhook_POST :: "webhook_faults \<Rightarrow> webhook_request \<Rightarrow> store \<Rightarrow> ack response \<times> store" where
  "webhook_POST fl req s =
     (case webhook_POST_try fl req s of
        (Inr u, s') \<Rightarrow> (\<lparr>http_status = 200, http_body = Status ''ok''\<rparr>, s')
      | (Inl e, s') \<Rightarrow>
          (\<lparr>http_status = 200, http_body = Status ''error''\<rparr>,
           case f_import_catch fl of
             Some e' \<Rightarrow> s'
           | None \<Rightarrow> snd (insert_log (f_log_error fl)
               \<lparr>event_type = ''error'', payload = Logged_error e, processed = False,
                error = Some e\<rparr> s')))"

text \<open>A sequence of deliveries, each with its environment, processed one after the other.\<close>

fun deliveries :: "(webhook_faults \<times> webhook_request) list \<Rightarrow> store \<Rightarrow> store" where
  "deliveries [] s = s"
| "deliveries ((fl, req) # ds) s = deliveries ds (snd (webhook_POST fl req s))"

section \<open>Provider client and send endpoint\<close>

subsection \<open>\<^verbatim>\<open>sendWhatsAppMessage\<close>\<close>

text \<open>
  What the provider's HTTP API does with the request is the environment's: \<^verbatim>\<open>fetch\<close> rejects,
  \<^verbatim>\<open>response.json()\<close> rejects, or there is a reply with its \<^verbatim>\<open>ok\<close> flag and its JSON body
  (an object, or \<^verbatim>\<open>null\<close>).
\<close>

datatype graph_outcome = Fetch_rejects string | Body_not_json string | Reply bool "graph_data js"

text \<open>\<^verbatim>\<open>!x\<close> for an environment variable: unset or empty.\<close>

fun not_set :: "string option \<Rightarrow> bool" where
  "not_set None = True"
| "not_set (Some v) = (v = [])"

text \<open>The value of an environment variable that is set.\<close>

fun env_value :: "string option \<Rightarrow> string" where
  "env_value (Some v) = v"
| "env_value None = ''undefined''"

text \<open>
  \<open>now_id\<close> is the \<^verbatim>\<open>Date.now()\<close> of the fallback message id, \<open>now_row\<close> the \<^verbatim>\<open>new Date()\<close>
  of the row's timestamp. The result of the insert is not looked at: only an insert that
  throws stops the function. \<open>Inl\<close> is the message of the error thrown.
\<close>

definition sendWhatsAppMessage ::
  "env \<Rightarrow> graph_outcome \<Rightarrow> fault \<Rightarrow> int \<Rightarrow> int \<Rightarrow> string \<Rightarrow> string \<Rightarrow> bool \<Rightarrow> store
     \<Rightarrow> (string + graph_data js) \<times> store" where
  "sendWhatsAppMessage e outcome f now_id now_row to_arg body_arg isAiResponse s =
     (if not_set (WHATSAPP_PHONE_NUMBER_ID e) \<or> not_set (WHATSAPP_ACCESS_TOKEN e)
      then (Inl ''WhatsApp credentials not configured'', s)
      else
        (case outcome of
           Fetch_rejects err \<Rightarrow> (Inl err, s)
         | Body_not_json err \<Rightarrow> (Inl err, s)
         | Reply ok Undefined \<Rightarrow> (Inl TypeError_null, s)
         | Reply ok Null \<Rightarrow> (Inl TypeError_null, s)
         | Reply ok (Val d) \<Rightarrow>
            if \<not> ok
            then (Inl (or_else (opt_chain (d_error d) ge_message) ''Failed to send message''), s)
            else
              (case insert_message f
                  \<lparr>ins_message_id = Val (or_else (opt_chain (first (d_messages d)) gm_id)
                                            (''msg_'' @ show_int now_id)),
                   ins_phone_number = Val (strip_plus_spaces to_arg),
                   ins_from_number = Val (env_value (WHATSAPP_PHONE_NUMBER_ID e)),
                   ins_to_number = Val (strip_plus_spaces to_arg),
                   ins_body = Val body_arg, ins_direction = Outbound, ins_status = Val ''sent'',
                   ins_timestamp = now_row, ins_message_type = Val ''text'',
                   ins_media_url = Undefined, ins_media_mime_type = Undefined,
                   ins_caption = Undefined, ins_is_ai_response = isAiResponse,
                   ins_metadata = Graph_reply d\<rparr> s of
                 (Db_throws err, s') \<Rightarrow> (Inl err, s')
               | (Db_error, s') \<Rightarrow> (Inr (Val d), s')
               | (Db_data rows, s') \<Rightarrow> (Inr (Val d), s'))))"

subsection \<open>\<^verbatim>\<open>POST /api/messages/send\<close>\<close>

text \<open>
  The \<^verbatim>\<open>isAiResponse\<close> field of the request: a boolean (the declared type of the parameter
  it is passed to), or one of the falsy values JSON has besides \<^verbatim>\<open>false\<close>: the field
  omitted, \<^verbatim>\<open>null\<close>, the number 0, the empty string.
\<close>

datatype flag = Omitted | Flag_null | Flag_bool bool | Flag_zero | Flag_empty

text \<open>\<^verbatim>\<open>isAiResponse || false\<close>.\<close>

fun or_false :: "flag \<Rightarrow> bool" where
  "or_false (Flag_bool b) = b"
| "or_false Omitted = False"
| "or_false Flag_null = False"
| "or_false Flag_zero = False"
| "or_false Flag_empty = False"

record send_request =
  req_to :: "string js"
  req_body :: "string js"
  req_isAiResponse :: flag

text \<open>What \<^verbatim>\<open>request.json()\<close> gives: a rejection, \<^verbatim>\<open>null\<close> (the destructuring then throws), or an object.\<close>

datatype send_json = Send_not_json string | Send_null | Send_object send_request

text \<open>The JSON body of the answer: \<^verbatim>\<open>{error}\<close>, or \<^verbatim>\<open>{message: data, success: true}\<close>.\<close>

datatype send_body = Send_error string | Send_ok "graph_data js"

definition send_POST ::
  "env \<Rightarrow> graph_outcome \<Rightarrow> fault \<Rightarrow> int \<Rightarrow> int \<Rightarrow> send_json \<Rightarrow> store \<Rightarrow> send_body response \<times> store" where
  "send_POST e outcome f now_id now_row req s =
     (case req of
        Send_not_json err \<Rightarrow> (\<lparr>http_status = 500, http_body = Send_error err\<rparr>, s)
      | Send_null \<Rightarrow> (\<lparr>http_status = 500, http_body = Send_error TypeError_null\<rparr>, s)
      | Send_object r \<Rightarrow>
          if \<not> truthy (req_to r) \<or> \<not> truthy (req_body r)
          then (\<lparr>http_status = 400, http_body = Send_error ''Missing required fields: to, body''\<rparr>, s)
          else
            (case sendWhatsAppMessage e outcome f now_id now_row (js_String (req_to r))
                    (js_String (req_body r)) (or_false (req_isAiResponse r)) s of
               (Inl err, s') \<Rightarrow> (\<lparr>http_status = 500, http_body = Send_error err\<rparr>, s')
             | (Inr data, s') \<Rightarrow> (\<lparr>http_status = 200, http_body = Send_ok data\<rparr>, s')))"

section \<open>Conversation aggregator\<close>

subsection \<open>\<^verbatim>\<open>getMessages\<close> and \<^verbatim>\<open>GET /api/messages/fetch\<close>\<close>

definition getMessages :: "fault \<Rightarrow> string option \<Rightarrow> nat \<Rightarrow> store \<Rightarrow> string + message_row list" where
  "getMessages f phoneNumber_arg limit s =
     (case f of
        Throws err \<Rightarrow> Inl err
      | DbError \<Rightarrow> Inl ''Failed to fetch messages from database''
      | NoFault \<Rightarrow>
          Inr (take limit (order_desc
            (case phoneNumber_arg of
               None \<Rightarrow> messages s
             | Some p \<Rightarrow>
                 if p = [] then messages s
                 else filter (\<lambda>r. phone_number r = strip_plus_spaces p) (messages s)))))"

text \<open>An item of the \<^verbatim>\<open>messages\<close> array of the answer.\<close>

record api_message =
  sid :: string
  msg_from :: string
  msg_to :: string
  msg_body :: string
  date_sent :: int
  msg_status :: string
  msg_direction :: string
  msg_message_type :: "string option"
  msg_is_ai_response :: bool

text \<open>\<^verbatim>\<open>x || d\<close> for a nullable text column.\<close>

fun col_or :: "string option \<Rightarrow> string \<Rightarrow> string" where
  "col_or None d = d"
| "col_or (Some v) d = (if v \<noteq> [] then v else d)"

definition format_message :: "message_row \<Rightarrow> api_message" where
  "format_message msg =
     \<lparr>sid = message_id msg,
      msg_from = (if direction msg = Inbound then from_number msg else to_number msg),
      msg_to = (if direction msg = Inbound then to_number msg else from_number msg),
      msg_body = col_or (body msg) [],
      date_sent = timestamp msg,
      msg_status = col_or (status msg) ''delivered'',
      msg_direction = (if direction msg = Inbound then ''inbound'' else ''outbound-api''),
      msg_message_type = message_type msg,
      msg_is_ai_response = is_ai_response msg\<rparr>"

datatype fetch_body = Fetch_messages "api_message list" | Fetch_failed string

definition messages_fetch_GET :: "fault \<Rightarrow> store \<Rightarrow> fetch_body response" where
  "messages_fetch_GET f s =
     (case getMessages f None 1000 s of
        Inl err \<Rightarrow> \<lparr>http_status = 500, http_body = Fetch_failed ''Failed to fetch messages''\<rparr>
      | Inr msgs \<Rightarrow> \<lparr>http_status = 200, http_body = Fetch_messages (map format_message msgs)\<rparr>)"

subsection \<open>\<^verbatim>\<open>fetchMessages\<close> of the dashboard page\<close>

text \<open>\<^verbatim>\<open>s.replace(pat, '')\<close> with a string pattern: the first occurrence is removed.\<close>

fun remove_first :: "string \<Rightarrow> string \<Rightarrow> string" where
  "remove_first pat [] = []"
| "remove_first pat (c # cs) =
     (if take (length pat) (c # cs) = pat then drop (length pat) (c # cs)
      else c # remove_first pat cs)"

text \<open>The group key the page computes for a message (its local \<^verbatim>\<open>phoneNumber\<close>).\<close>

definition group_key :: "api_message \<Rightarrow> string" where
  "group_key m =
     (if msg_direction m = ''inbound'' then remove_first ''whatsapp:'' (msg_from m)
      else remove_first ''whatsapp:'' (msg_to m))"

text \<open>
  \<^verbatim>\<open>messageGroups\<close> is an object used as a dictionary: here the list of its own keys in
  insertion order, each with its array. A key that names a member of \<^verbatim>\<open>Object.prototype\<close>
  reads as that member, no array is made, and \<^verbatim>\<open>push\<close> is not a function.
\<close>

definition Object_prototype_keys :: "string list" where
  "Object_prototype_keys = [''constructor'', ''__proto__'', ''hasOwnProperty'', ''isPrototypeOf'',
     ''propertyIsEnumerable'', ''toLocaleString'', ''toString'', ''valueOf'',
     ''__defineGetter__'', ''__defineSetter__'', ''__lookupGetter__'', ''__lookupSetter__'']"

fun push_message :: "string \<Rightarrow> api_message \<Rightarrow> (string \<times> api_message list) list
    \<Rightarrow> (string \<times> api_message list) list" where
  "push_message k m [] = [(k, [m])]"
| "push_message k m ((k', ms) # gs) =
     (if k = k' then (k', ms @ [m]) # gs else (k', ms) # push_message k m gs)"

fun group_messages :: "api_message list \<Rightarrow> (string \<times> api_message list) list
    \<Rightarrow> string + (string \<times> api_message list) list" where
  "group_messages [] gs = Inr gs"
| "group_messages (m # ms) gs =
     (if group_key m \<in> set Object_prototype_keys
      then Inl ''messageGroups[phoneNumber].push is not a function''
      else group_messages ms (push_message (group_key m) m gs))"

text \<open>
  \<^verbatim>\<open>Object.entries\<close>: the keys that are array indices (canonical decimal numbers below
  \<open>2^32 - 1\<close>) first, in ascending order, then the other keys in insertion order.
\<close>

definition is_array_index :: "string \<Rightarrow> bool" where
  "is_array_index k =
     (k \<noteq> [] \<and> list_all (\<lambda>c. digit_value 10 c \<noteq> None) k \<and> (k = ''0'' \<or> hd k \<noteq> CHR ''0'')
      \<and> digits_value 10 0 k < 4294967295)"

definition Object_entries :: "(string \<times> 'a) list \<Rightarrow> (string \<times> 'a) list" where
  "Object_entries gs =
     sort_key (\<lambda>g. digits_value 10 0 (fst g)) (filter (\<lambda>g. is_array_index (fst g)) gs)
     @ filter (\<lambda>g. \<not> is_array_index (fst g)) gs"

record conversation =
  conv_phoneNumber :: string
  conv_messages :: "api_message list"
  conv_lastMessage :: "api_message option"

text \<open>
  A group's conversation: its messages newest first (\<^verbatim>\<open>sort\<close> is stable), the last message
  the first of them (\<^verbatim>\<open>undefined\<close>, here \<open>None\<close>, for an empty array).
\<close>

definition conversation_of :: "string \<times> api_message list \<Rightarrow> conversation" where
  "conversation_of g =
     \<lparr>conv_phoneNumber = fst g,
      conv_messages = sort_key (\<lambda>m. - date_sent m) (snd g),
      conv_lastMessage =
        (case sort_key (\<lambda>m. - date_sent m) (snd g) of [] \<Rightarrow> None | m # ms \<Rightarrow> Some m)\<rparr>"

fun last_time :: "conversation \<Rightarrow> int" where
  "last_time c = (case conv_lastMessage c of None \<Rightarrow> 0 | Some m \<Rightarrow> date_sent m)"

text \<open>
  The conversation list the page sets, or the message of the error it shows. The argument
  is the answer of \<^verbatim>\<open>GET /api/messages/fetch\<close>. The list is sorted by the time of the last
  message, newest first; every group has a message, since a group is made by the push of
  its first one.
\<close>

definition fetchMessages :: "fetch_body response \<Rightarrow> string + conversation list" where
  "fetchMessages resp =
     (case http_body resp of
        Fetch_failed err \<Rightarrow>
          if 200 \<le> http_status resp \<and> http_status resp \<le> 299
          then Inl ''Cannot read properties of undefined''
          else Inl (if err \<noteq> [] then err else ''Failed to fetch messages'')
      | Fetch_messages msgs \<Rightarrow>
          if \<not> (200 \<le> http_status resp \<and> http_status resp \<le> 299)
          then Inl ''Failed to fetch messages''
          else
            (case group_messages msgs [] of
               Inl err \<Rightarrow> Inl err
             | Inr gs \<Rightarrow>
                 Inr (sort_key (\<lambda>c. - last_time c) (map conversation_of (Object_entries gs)))))"

section \<open>Notions used by the properties\<close>

text \<open>A human reply to the phone number: an outbound row that is not an AI response.\<close>

definition qualifying :: "string \<Rightarrow> message_row \<Rightarrow> bool" where
  "qualifying p r = (phone_number r = p \<and> direction r = Outbound \<and> is_ai_response r = False)"

text \<open>
  The hours left that the handler computes at clock reading \<open>now2\<close> for a last human reply at
  \<open>messageTime\<close>, and the value it reports for them.
\<close>

definition hours_left :: "int \<Rightarrow> int \<Rightarrow> rat" where
  "hours_left now2 messageTime =
     max 0 (double (2 - double (double (rat_of_int (now2 - messageTime)) / 3600000)))"

definition reported_left :: "int \<Rightarrow> int \<Rightarrow> rat" where
  "reported_left now2 messageTime =
     double (Math_round (double (hours_left now2 messageTime * 100)) / 100)"

text \<open>The \<^verbatim>\<open>hoursRemaining\<close> of a response, if it is a result.\<close>

fun reported_hours :: "check_body response \<Rightarrow> rat option" where
  "reported_hours resp =
     (case http_body resp of Check_failed e h x \<Rightarrow> None | Check_ok r \<Rightarrow> Some (hoursRemaining r))"

text \<open>Example data: one human reply, sent at time 0 to 254700000001 from the business number id 1055.\<close>

definition example_row :: message_row where
  "example_row = \<lparr>message_id = ''wamid.1'', phone_number = ''254700000001'',
      from_number = ''1055'', to_number = ''254700000001'', body = Some ''hi'',
      direction = Outbound, status = Some ''sent'', timestamp = 0, message_type = Some ''text'',
      media_url = None, media_mime_type = None, caption = None, is_ai_response = False,
      metadata = Graph_reply \<lparr>d_error = Undefined, d_messages = Undefined\<rparr>\<rparr>"

definition example_store :: store where
  "example_store = \<lparr>messages = [example_row], webhook_logs = []\<rparr>"

text \<open>The \<^verbatim>\<open>message_id\<close> column of the \<^verbatim>\<open>messages\<close> table, row by row.\<close>

definition message_ids :: "store \<Rightarrow> string list" where
  "message_ids s = map message_id (messages s)"

text \<open>One list is the other, or the other with one new element at its end.\<close>

definition grows :: "string list \<Rightarrow> string list \<Rightarrow> bool" where
  "grows xs ys = (ys = xs \<or> (ys \<noteq> [] \<and> butlast ys = xs \<and> last ys \<notin> set xs))"

text \<open>Example data: an inbound text message; the same message dated 10000-01-01; three
  environments (all calls answered; every store call resolving with an error; the store
  unreachable and the module failing to load in the \<^verbatim>\<open>catch\<close> block); two deliveries of
  the event, the first while the store answers with errors, and a third delivery after them;
  and an environment with its variables set.\<close>

definition example_event :: wa_body where
  "example_event = \<lparr>entry = Val [Val \<lparr>en_changes = Val [Val \<lparr>ch_field = Val ''messages'',
     ch_value = Val \<lparr>wv_messages = Val [Val \<lparr>m_id = Val ''wamid.IN1'', m_from = Val ''254700000001'',
        m_timestamp = Val ''1700000000'', m_type = Val ''text'',
        m_text = Val \<lparr>t_body = Val ''hello''\<rparr>, m_image = Undefined, m_video = Undefined,
        m_audio = Undefined, m_document = Undefined\<rparr>],
      wv_statuses = Undefined,
      wv_metadata = Val \<lparr>phone_number_id = Val ''1055''\<rparr>\<rparr>\<rparr>]\<rparr>]\<rparr>"

definition far_future_event :: wa_body where
  "far_future_event = \<lparr>entry = Val [Val \<lparr>en_changes = Val [Val \<lparr>ch_field = Val ''messages'',
     ch_value = Val \<lparr>wv_messages = Val [Val \<lparr>m_id = Val ''wamid.IN1'', m_from = Val ''254700000001'',
        m_timestamp = Val ''253402300800'', m_type = Val ''text'',
        m_text = Val \<lparr>t_body = Val ''hello''\<rparr>, m_image = Undefined, m_video = Undefined,
        m_audio = Undefined, m_document = Undefined\<rparr>],
      wv_statuses = Undefined,
      wv_metadata = Val \<lparr>phone_number_id = Val ''1055''\<rparr>\<rparr>\<rparr>]\<rparr>]\<rparr>"

definition no_faults :: webhook_faults where
  "no_faults = \<lparr>f_import = None, f_log_received = NoFault, f_store = NoFault,
     f_log_message = NoFault, f_update = (\<lambda>i. NoFault), f_log_status = NoFault,
     f_import_catch = None, f_log_error = NoFault\<rparr>"

definition store_errors :: webhook_faults where
  "store_errors = \<lparr>f_import = None, f_log_received = DbError, f_store = DbError,
     f_log_message = DbError, f_update = (\<lambda>i. DbError), f_log_status = DbError,
     f_import_catch = None, f_log_error = DbError\<rparr>"

definition store_down :: webhook_faults where
  "store_down = \<lparr>f_import = None, f_log_received = DbError, f_store = Throws ''fetch failed'',
     f_log_message = DbError, f_update = (\<lambda>i. Throws ''fetch failed''), f_log_status = DbError,
     f_import_catch = Some ''supabaseUrl is required'', f_log_error = Throws ''fetch failed''\<rparr>"



definition example_env :: env where
  "example_env = \<lparr>WEBHOOK_VERIFY_TOKEN = Some ''s3cret'', WHATSAPP_PHONE_NUMBER_ID = Some ''1055'',
     WHATSAPP_ACCESS_TOKEN = Some ''EAAB''\<rparr>"

text \<open>Example data: a provider reply to a successful send, a provider error, a send request without
  the \<^verbatim>\<open>isAiResponse\<close> field, the row that request leaves, and the store after a send to
  +254700000001 followed by the delivery of the example event, an inbound message from that
  same number.\<close>

definition example_reply :: graph_data where
  "example_reply = \<lparr>d_error = Undefined, d_messages = Val [Val \<lparr>gm_id = Val ''wamid.OUT1''\<rparr>]\<rparr>"

definition example_failure :: graph_data where
  "example_failure = \<lparr>d_error = Val \<lparr>ge_message = Val ''(#131030) Recipient phone number not in allowed list''\<rparr>,
     d_messages = Undefined\<rparr>"

definition example_send :: send_request where
  "example_send = \<lparr>req_to = Val ''+254 700 000002'', req_body = Val ''On my way'', req_isAiResponse = Omitted\<rparr>"

definition example_sent_row :: message_row where
  "example_sent_row = \<lparr>message_id = ''wamid.OUT1'', phone_number = ''254700000002'',
      from_number = ''1055'', to_number = ''254700000002'', body = Some ''On my way'',
      direction = Outbound, status = Some ''sent'', timestamp = 1700000000000,
      message_type = Some ''text'', media_url = None, media_mime_type = None, caption = None,
      is_ai_response = False, metadata = Graph_reply example_reply\<rparr>"

definition conversation_store :: store where
  "conversation_store = deliveries [(no_faults, Json_body example_event)]
     (snd (send_POST example_env (Reply True (Val example_reply)) NoFault 1699999990000 1699999990000
        (Send_object \<lparr>req_to = Val ''+254700000001'', req_body = Val ''Hello'', req_isAiResponse = Omitted\<rparr>)
        \<lparr>messages = [], webhook_logs = []\<rparr>))"

section \<open>Verification: human-activity gate\<close>

subsection \<open>Rounding to binary64\<close>

lemma bitlen_pos: "0 < n \<Longrightarrow> 0 < bitlen n"
  using bitlen_eq_zero_iff[of n] bitlen_nonneg[of n] by linarith

lemma binade_bounds:
  assumes "0 < x"
  shows "2 powi binade x \<le> x" and "x < 2 powi (binade x + 1)"
proof -
  have "2 powi binade x \<le> x \<and> x < 2 powi (binade x + 1)"
  proof (cases "1 \<le> x")
    case True
    define n where "n = \<lfloor>x\<rfloor>"
    have n: "1 \<le> n" using True by (simp add: n_def)
    then have b: "0 < bitlen n" by (intro bitlen_pos) simp
    have e: "binade x = bitlen n - 1" using True by (simp add: binade_def n_def)
    from bitlen_bounds[of n] n
    have lo: "2 ^ nat (bitlen n - 1) \<le> n" and hi: "n < 2 ^ nat (bitlen n)" by auto
    have "(2::rat) powi (bitlen n - 1) = of_int (2 ^ nat (bitlen n - 1))"
      using b by (simp add: power_int_nonneg_exp)
    also have "\<dots> \<le> of_int n" using lo by (simp only: of_int_le_iff)
    also have "\<dots> \<le> x" by (simp add: n_def)
    finally have 1: "2 powi binade x \<le> x" by (simp add: e)
    have "x < of_int (n + 1)" using floor_correct[of x] by (simp add: n_def)
    also have "\<dots> \<le> of_int (2 ^ nat (bitlen n))"
    proof -
      have "n + 1 \<le> 2 ^ nat (bitlen n)" using hi by simp
      then show ?thesis by (simp only: of_int_le_iff)
    qed
    also have "\<dots> = (2::rat) powi (bitlen n)" using b by (simp add: power_int_nonneg_exp)
    finally have 2: "x < 2 powi (binade x + 1)" by (simp add: e)
    from 1 2 show ?thesis ..
  next
    case False
    define y where "y = 1 / x"
    define n where "n = \<lceil>y\<rceil>"
    have y1: "1 < y" using False assms by (simp add: y_def)
    then have n: "2 \<le> n" unfolding n_def by (simp add: le_ceiling_iff)
    have ny: "of_int (n - 1) < y" "y \<le> of_int n"
      using ceiling_correct[of y] by (simp_all add: n_def)
    let ?k = "bitlen (n - 1)"
    have k: "0 < ?k" using n by (intro bitlen_pos) simp
    have e: "binade x = - ?k" using False by (simp add: binade_def n_def y_def)
    from bitlen_bounds[of "n - 1"] n
    have lo: "2 ^ nat (?k - 1) \<le> n - 1" and hi: "n - 1 < 2 ^ nat ?k" by auto
    have "n \<le> 2 ^ nat ?k" using hi by simp
    then have "(of_int n :: rat) \<le> of_int (2 ^ nat ?k)" by (simp only: of_int_le_iff)
    then have "y \<le> of_int (2 ^ nat ?k)"
      using ny(2) by (rule order_trans[rotated])
    then have "y \<le> 2 ^ nat ?k" by simp
    then have "1 / 2 ^ nat ?k \<le> x"
      using assms by (simp add: y_def field_simps)
    moreover have "(2::rat) powi (- ?k) = 1 / 2 ^ nat ?k"
      using k by (simp add: power_int_minus_divide power_int_nonneg_exp)
    ultimately have 1: "2 powi binade x \<le> x" by (simp add: e)
    have "of_int (2 ^ nat (?k - 1)) \<le> (of_int (n - 1) :: rat)"
      using lo by (simp only: of_int_le_iff)
    then have "2 ^ nat (?k - 1) < y" using ny(1) by simp
    then have "x < 1 / 2 ^ nat (?k - 1)"
      using assms by (simp add: y_def field_simps)
    moreover have "(2::rat) powi (- ?k + 1) = 1 / 2 ^ nat (?k - 1)"
    proof -
      have "- ?k + 1 = - (?k - 1)" by simp
      then show ?thesis using k by (simp only: power_int_minus_divide) (simp add: power_int_nonneg_exp)
    qed
    ultimately have 2: "x < 2 powi (binade x + 1)" by (simp add: e)
    from 1 2 show ?thesis ..
  qed
  then show "2 powi binade x \<le> x" and "x < 2 powi (binade x + 1)" by simp_all
qed


lemma binade_mono:
  assumes "0 < x" and "x \<le> y"
  shows "binade x \<le> binade y"
proof (rule ccontr)
  assume "\<not> binade x \<le> binade y"
  then have "binade y + 1 \<le> binade x" by simp
  then have "(2::rat) powi (binade y + 1) \<le> 2 powi binade x"
    by (intro power_int_increasing) simp_all
  moreover have "y < 2 powi (binade y + 1)" using assms by (intro binade_bounds) simp
  moreover have "2 powi binade x \<le> x" using assms by (intro binade_bounds)
  ultimately show False using assms(2) by linarith
qed

lemma two_powi_less_imp: "(2::rat) powi a < 2 powi b \<Longrightarrow> a < b"
proof (rule ccontr)
  assume l: "(2::rat) powi a < 2 powi b" and "\<not> a < b"
  then have "b \<le> a" by simp
  then have "(2::rat) powi b \<le> 2 powi a" by (intro power_int_increasing) simp_all
  with l show False by simp
qed

lemma round_half_even_of_int [simp]: "round_half_even (of_int n) = n"
  by (simp add: round_half_even_def)

lemma round_half_even_cases:
  "round_half_even x = \<lfloor>x\<rfloor> \<or> round_half_even x = \<lfloor>x\<rfloor> + 1"
  by (simp add: round_half_even_def)

lemma round_half_even_ge:
  assumes "of_int a \<le> x"
  shows "a \<le> round_half_even x"
proof -
  have "a \<le> \<lfloor>x\<rfloor>" using assms by (simp add: le_floor_iff)
  then show ?thesis using round_half_even_cases[of x] by auto
qed

lemma round_half_even_le:
  assumes "x \<le> of_int b"
  shows "round_half_even x \<le> b"
proof (cases "x = of_int b")
  case True
  then show ?thesis by simp
next
  case False
  then have "x < of_int b" using assms by simp
  then have "\<lfloor>x\<rfloor> < b" by (simp add: floor_less_iff)
  then show ?thesis using round_half_even_cases[of x] by auto
qed

lemma round_half_even_mono:
  assumes "x \<le> y"
  shows "round_half_even x \<le> round_half_even y"
proof (cases "\<lfloor>x\<rfloor> = \<lfloor>y\<rfloor>")
  case True
  then show ?thesis using assms by (auto simp: round_half_even_def)
next
  case False
  then have "\<lfloor>x\<rfloor> + 1 \<le> \<lfloor>y\<rfloor>" using floor_mono[OF assms] by simp
  moreover have "round_half_even x \<le> \<lfloor>x\<rfloor> + 1" using round_half_even_cases[of x] by auto
  moreover have "\<lfloor>y\<rfloor> \<le> round_half_even y" using round_half_even_cases[of y] by auto
  ultimately show ?thesis by linarith
qed


lemma double_0 [simp]: "double 0 = 0"
  by (simp add: double_def)

lemma double_minus: "double (- x) = - double x"
  by (simp add: double_def)

lemma double_pos_eq:
  "0 < x \<Longrightarrow> double x = of_int (round_half_even (x / 2 powi (binade x - 52))) * 2 powi (binade x - 52)"
  by (simp add: double_def)

lemma two_powi_split: "(2::rat) powi e = 2 ^ 52 * 2 powi (e - 52)"
proof -
  have "e = 52 + (e - 52)" by simp
  then have "(2::rat) powi e = 2 powi (52 + (e - 52))" by (simp only:)
  also have "\<dots> = 2 powi 52 * 2 powi (e - 52)" by (subst power_int_add) simp_all
  finally show ?thesis by simp
qed

lemma two_powi_split': "(2::rat) powi (e + 1) = 2 ^ 53 * 2 powi (e - 52)"
proof -
  have "e + 1 = 53 + (e - 52)" by simp
  then have "(2::rat) powi (e + 1) = 2 powi (53 + (e - 52))" by (simp only:)
  also have "\<dots> = 2 powi 53 * 2 powi (e - 52)" by (subst power_int_add) simp_all
  finally show ?thesis by simp
qed

lemma double_pos_bounds:
  assumes "0 < x"
  shows "2 powi binade x \<le> double x" and "double x \<le> 2 powi (binade x + 1)"
proof -
  define q :: rat where "q = 2 powi (binade x - 52)"
  have q: "0 < q" by (simp add: q_def)
  have lo: "2 ^ 52 * q \<le> x" using binade_bounds(1)[OF assms] two_powi_split[of "binade x"] by (simp add: q_def)
  have hi: "x \<le> 2 ^ 53 * q" using binade_bounds(2)[OF assms] two_powi_split'[of "binade x"] by (simp add: q_def)
  have "of_int (2 ^ 52) \<le> x / q" using lo q by (simp add: field_simps)
  then have "2 ^ 52 \<le> round_half_even (x / q)" by (rule round_half_even_ge)
  then have "(of_int (2 ^ 52) :: rat) \<le> of_int (round_half_even (x / q))" by (simp only: of_int_le_iff)
  then have "2 ^ 52 * q \<le> of_int (round_half_even (x / q)) * q" using q by simp
  then show "2 powi binade x \<le> double x"
    using two_powi_split[of "binade x"] by (simp add: double_pos_eq[OF assms] q_def)
  have "x / q \<le> of_int (2 ^ 53)" using hi q by (simp add: field_simps)
  then have "round_half_even (x / q) \<le> 2 ^ 53" by (rule round_half_even_le)
  then have "(of_int (round_half_even (x / q)) :: rat) \<le> of_int (2 ^ 53)" by (simp only: of_int_le_iff)
  then have "of_int (round_half_even (x / q)) * q \<le> 2 ^ 53 * q" using q by simp
  then show "double x \<le> 2 powi (binade x + 1)"
    using two_powi_split'[of "binade x"] by (simp add: double_pos_eq[OF assms] q_def)
qed

lemma double_pos:
  assumes "0 < x"
  shows "0 < double x"
proof -
  have "(0::rat) < 2 powi binade x" by (intro zero_less_power_int) simp
  then show ?thesis using double_pos_bounds(1)[OF assms] by linarith
qed

lemma double_mono_pos:
  assumes "0 < x" and "x \<le> y"
  shows "double x \<le> double y"
proof (cases "binade x = binade y")
  case True
  define q :: rat where "q = 2 powi (binade x - 52)"
  have q: "0 < q" by (simp add: q_def)
  have "x / q \<le> y / q" using assms(2) q by (simp add: divide_right_mono)
  then have "round_half_even (x / q) \<le> round_half_even (y / q)" by (rule round_half_even_mono)
  then have "(of_int (round_half_even (x / q)) :: rat) \<le> of_int (round_half_even (y / q))"
    by (simp only: of_int_le_iff)
  then have "of_int (round_half_even (x / q)) * q \<le> of_int (round_half_even (y / q)) * q"
    using q by simp
  moreover have "0 < y" using assms by simp
  ultimately show ?thesis using assms(1) True by (simp add: double_pos_eq q_def)
next
  case False
  have y: "0 < y" using assms by simp
  have "binade x \<le> binade y" using assms by (rule binade_mono)
  then have "binade x + 1 \<le> binade y" using False by simp
  then have "(2::rat) powi (binade x + 1) \<le> 2 powi binade y"
    by (intro power_int_increasing) simp_all
  then show ?thesis
    using double_pos_bounds(2)[OF assms(1)] double_pos_bounds(1)[OF y] by linarith
qed

lemma double_mono:
  assumes "x \<le> y"
  shows "double x \<le> double y"
proof -
  consider "0 < x" | "x = 0" | "x < 0" "y < 0" | "x < 0" "0 \<le> y" by linarith
  then show ?thesis
  proof cases
    case 1
    then show ?thesis using assms by (rule double_mono_pos)
  next
    case 2
    then show ?thesis using assms double_pos[of y] by (cases "y = 0") auto
  next
    case 3
    then have "double (- y) \<le> double (- x)" using assms by (intro double_mono_pos) simp_all
    then show ?thesis by (simp add: double_minus)
  next
    case 4
    have "double (- x) > 0" using 4 by (intro double_pos) simp
    then have "double x < 0" by (simp add: double_minus)
    moreover have "0 \<le> double y" using 4 double_pos[of y] by (cases "y = 0") auto
    ultimately show ?thesis by simp
  qed
qed

lemma double_of_int_pos:
  assumes "0 < n" and "n < 2 ^ 53"
  shows "double (of_int n) = of_int n"
proof -
  let ?x = "rat_of_int n"
  have x: "0 < ?x" using assms by simp
  have "2 powi binade ?x \<le> ?x" using x by (rule binade_bounds)
  also have "?x < of_int (2 ^ 53)" using assms(2) by (simp only: of_int_less_iff)
  finally have "(2::rat) powi binade ?x < 2 powi 53" by simp
  then have e: "binade ?x < 53" by (rule two_powi_less_imp)
  define k where "k = nat (52 - binade ?x)"
  have "(2::rat) powi (binade ?x - 52) = 2 powi (- int k)" using e by (simp add: k_def)
  also have "\<dots> = 1 / 2 ^ k" by (simp add: power_int_minus_divide)
  finally have q: "(2::rat) powi (binade ?x - 52) = 1 / 2 ^ k" .
  have "?x / (1 / 2 ^ k) = of_int (n * 2 ^ k)" by simp
  then have "round_half_even (?x / (1 / 2 ^ k)) = n * 2 ^ k"
    by (simp only: round_half_even_of_int)
  then show ?thesis by (simp add: double_pos_eq[OF x] q)
qed

lemma double_of_int:
  assumes "\<bar>n\<bar> < 2 ^ 53"
  shows "double (of_int n) = of_int n"
proof -
  consider "0 < n" | "n = 0" | "n < 0" by linarith
  then show ?thesis
  proof cases
    case 1
    then show ?thesis using assms by (intro double_of_int_pos) simp_all
  next
    case 2
    then show ?thesis by simp
  next
    case 3
    then have "double (of_int (- n)) = of_int (- n)" using assms by (intro double_of_int_pos) simp_all
    then show ?thesis using double_minus[of "of_int n"] by simp
  qed
qed

lemma double_numeral [simp]: "numeral w < (2::int) ^ 53 \<Longrightarrow> double (numeral w) = numeral w"
  using double_of_int[of "numeral w"] by simp

lemma double_1 [simp]: "double 1 = 1"
  using double_of_int[of 1] by simp

subsection \<open>The query and the answer\<close>

lemma order_desc_Nil [simp]: "order_desc xs = [] \<longleftrightarrow> xs = []"
  by (metis order_desc_def length_sort length_0_conv)

lemma order_desc_Cons:
  assumes "order_desc xs = y # ys"
  shows "y \<in> set xs" and "\<forall>x\<in>set xs. timestamp x \<le> timestamp y"
proof -
  have st: "set (y # ys) = set xs"
    using assms by (metis order_desc_def set_sort)
  then show "y \<in> set xs" by auto
  have "sorted (map (\<lambda>r. - timestamp r) (y # ys))"
    using assms by (metis order_desc_def sorted_sort_key)
  then have "\<forall>x\<in>set ys. timestamp x \<le> timestamp y" by auto
  with st show "\<forall>x\<in>set xs. timestamp x \<le> timestamp y" by auto
qed

lemma select_none:
  assumes "\<forall>r\<in>set (messages s). \<not> (qualifying p r \<and> since \<le> timestamp r)"
  shows "select_last_human NoFault p since s = Db_data []"
proof -
  have "filter (\<lambda>r. phone_number r = p \<and> direction r = Outbound \<and> is_ai_response r = False
                 \<and> since \<le> timestamp r) (messages s) = []"
    using assms by (auto simp: filter_empty_conv qualifying_def)
  then show ?thesis by (simp add: select_last_human_def)
qed

lemma select_cases:
  "(select_last_human NoFault p since s = Db_data []
      \<and> (\<forall>r\<in>set (messages s). \<not> (qualifying p r \<and> since \<le> timestamp r)))
   \<or> (\<exists>y. select_last_human NoFault p since s = Db_data [y] \<and> y \<in> set (messages s)
         \<and> qualifying p y \<and> since \<le> timestamp y
         \<and> (\<forall>r\<in>set (messages s). qualifying p r \<and> since \<le> timestamp r \<longrightarrow> timestamp r \<le> timestamp y))"
proof -
  let ?P = "\<lambda>r. phone_number r = p \<and> direction r = Outbound \<and> is_ai_response r = False
                 \<and> since \<le> timestamp r"
  let ?xs = "filter ?P (messages s)"
  show ?thesis
  proof (cases "order_desc ?xs")
    case Nil
    then have "?xs = []" by simp
    then have "\<forall>r\<in>set (messages s). \<not> ?P r" by (simp add: filter_empty_conv)
    then have "\<forall>r\<in>set (messages s). \<not> (qualifying p r \<and> since \<le> timestamp r)"
      by (simp add: qualifying_def)
    with select_none show ?thesis by blast
  next
    case (Cons y ys)
    from order_desc_Cons[OF Cons] have y: "y \<in> set ?xs" and mx: "\<forall>x\<in>set ?xs. timestamp x \<le> timestamp y"
      by blast+
    have "select_last_human NoFault p since s = Db_data [y]"
      using Cons by (simp add: select_last_human_def)
    moreover have "y \<in> set (messages s)" "qualifying p y" "since \<le> timestamp y"
      using y by (auto simp: qualifying_def)
    moreover have "\<forall>r\<in>set (messages s). qualifying p r \<and> since \<le> timestamp r \<longrightarrow> timestamp r \<le> timestamp y"
      using mx by (auto simp: qualifying_def)
    ultimately show ?thesis by blast
  qed
qed

lemma select_latest:
  assumes "r \<in> set (messages s)" "qualifying p r" "since \<le> timestamp r"
    and "\<forall>r'\<in>set (messages s). qualifying p r' \<longrightarrow> timestamp r' \<le> timestamp r"
  shows "\<exists>y. select_last_human NoFault p since s = Db_data [y] \<and> timestamp y = timestamp r"
  using select_cases[of p since s] assms by (metis order_antisym)

lemma Math_round_of_int [simp]: "Math_round (of_int n) = of_int n"
  by (simp add: Math_round_def floor_eq_iff)

lemma Math_round_0 [simp]: "Math_round 0 = 0"
  using Math_round_of_int[of 0] by simp

lemma Math_round_100 [simp]: "Math_round 100 = 100"
  using Math_round_of_int[of 100] by simp

lemma Math_round_mono: "x \<le> y \<Longrightarrow> Math_round x \<le> Math_round y"
  by (simp add: Math_round_def floor_mono)

lemma Math_round_nonneg: "0 \<le> x \<Longrightarrow> 0 \<le> Math_round x"
  by (simp add: Math_round_def)

lemma toFixed1_one: "toFixed1 1 = ''1.0''"
  by code_simp

lemma check_human_none:
  assumes "phone \<noteq> []"
    and "\<forall>r\<in>set (messages s). \<not> (qualifying (js_trim (strip_plus_spaces phone)) r \<and> now1 - 7200000 \<le> timestamp r)"
  shows "check_human_GET NoFault now1 now2 (Some phone) s =
     \<lparr>http_status = 200, http_body = Check_ok
       \<lparr>phoneNumber = js_trim (strip_plus_spaces phone), humanActive = False,
        lastHumanResponseTime = None, hoursRemaining = 0,
        message = ''No human activity detected - AI can respond''\<rparr>\<rparr>"
proof -
  have "select_last_human NoFault (js_trim (strip_plus_spaces phone)) (now1 - 7200000) s = Db_data []"
    using assms(2) by (rule select_none)
  then show ?thesis using assms(1) by (simp add: check_human_GET_def Let_def)
qed

lemma check_human_found:
  assumes "phone \<noteq> []"
    and "select_last_human NoFault (js_trim (strip_plus_spaces phone)) (now1 - 7200000) s = Db_data [y]"
  shows "check_human_GET NoFault now1 now2 (Some phone) s =
     \<lparr>http_status = 200, http_body = Check_ok
       \<lparr>phoneNumber = js_trim (strip_plus_spaces phone),
        humanActive = (0 < hours_left now2 (timestamp y)),
        lastHumanResponseTime = Some (timestamp y),
        hoursRemaining = reported_left now2 (timestamp y),
        message =
          (if 0 < hours_left now2 (timestamp y)
           then ''Human is active - AI should wait ''
                @ toFixed1 (hours_left now2 (timestamp y)) @ '' more hours''
           else ''No human activity detected - AI can respond'')\<rparr>\<rparr>"
  using assms by (simp add: check_human_GET_def Let_def hours_left_def reported_left_def)

lemma hours_left_one_hour: "hours_left (T + 3600000) T = 1"
  by (simp add: hours_left_def)

lemma reported_left_one_hour: "reported_left (T + 3600000) T = 1"
  by (simp add: reported_left_def hours_left_one_hour)

text \<open>
  Claim C3. With the two-hour threshold of the handler: when the newest outbound,
  non-AI message stored for the queried (cleaned) phone number has time \<open>T\<close>, a call at
  \<open>T + 1h\<close> answers \<^verbatim>\<open>humanActive = true\<close> with \<^verbatim>\<open>hoursRemaining = 1\<close>, and a call at
  \<open>T + 3h\<close> answers \<^verbatim>\<open>humanActive = false\<close> with \<^verbatim>\<open>hoursRemaining = 0\<close>; when no such
  message lies in the two-hour window of a call, the answer is \<^verbatim>\<open>humanActive = false\<close>,
  \<^verbatim>\<open>hoursRemaining = 0\<close>, \<^verbatim>\<open>lastHumanResponseTime = null\<close>.
\<close>
theorem check_human_window:
  assumes "phone \<noteq> []"
  shows "(r \<in> set (messages s) \<and> qualifying (js_trim (strip_plus_spaces phone)) r \<and> timestamp r = T
          \<and> (\<forall>r'\<in>set (messages s). qualifying (js_trim (strip_plus_spaces phone)) r' \<longrightarrow> timestamp r' \<le> T)
          \<longrightarrow> check_human_GET NoFault (T + 3600000) (T + 3600000) (Some phone) s =
                \<lparr>http_status = 200, http_body = Check_ok
                  \<lparr>phoneNumber = js_trim (strip_plus_spaces phone), humanActive = True,
                   lastHumanResponseTime = Some T, hoursRemaining = 1,
                   message = ''Human is active - AI should wait 1.0 more hours''\<rparr>\<rparr>
            \<and> check_human_GET NoFault (T + 10800000) (T + 10800000) (Some phone) s =
                \<lparr>http_status = 200, http_body = Check_ok
                  \<lparr>phoneNumber = js_trim (strip_plus_spaces phone), humanActive = False,
                   lastHumanResponseTime = None, hoursRemaining = 0,
                   message = ''No human activity detected - AI can respond''\<rparr>\<rparr>)
       \<and> ((\<forall>r'\<in>set (messages s). \<not> (qualifying (js_trim (strip_plus_spaces phone)) r'
                \<and> now1 - 7200000 \<le> timestamp r'))
          \<longrightarrow> check_human_GET NoFault now1 now2 (Some phone) s =
                \<lparr>http_status = 200, http_body = Check_ok
                  \<lparr>phoneNumber = js_trim (strip_plus_spaces phone), humanActive = False,
                   lastHumanResponseTime = None, hoursRemaining = 0,
                   message = ''No human activity detected - AI can respond''\<rparr>\<rparr>)"
proof (intro conjI impI)
  let ?p = "js_trim (strip_plus_spaces phone)"
  assume a: "r \<in> set (messages s) \<and> qualifying ?p r \<and> timestamp r = T
          \<and> (\<forall>r'\<in>set (messages s). qualifying ?p r' \<longrightarrow> timestamp r' \<le> T)"
  then have "\<exists>y. select_last_human NoFault ?p (T + 3600000 - 7200000) s = Db_data [y] \<and> timestamp y = timestamp r"
    by (intro select_latest) auto
  then obtain y where y: "select_last_human NoFault ?p (T + 3600000 - 7200000) s = Db_data [y]"
    and ty: "timestamp y = T" using a by auto
  show "check_human_GET NoFault (T + 3600000) (T + 3600000) (Some phone) s =
                \<lparr>http_status = 200, http_body = Check_ok
                  \<lparr>phoneNumber = ?p, humanActive = True,
                   lastHumanResponseTime = Some T, hoursRemaining = 1,
                   message = ''Human is active - AI should wait 1.0 more hours''\<rparr>\<rparr>"
    by (simp add: check_human_found[OF assms y] ty toFixed1_one hours_left_one_hour
        reported_left_one_hour)
next
  let ?p = "js_trim (strip_plus_spaces phone)"
  assume a: "r \<in> set (messages s) \<and> qualifying ?p r \<and> timestamp r = T
          \<and> (\<forall>r'\<in>set (messages s). qualifying ?p r' \<longrightarrow> timestamp r' \<le> T)"
  then have "\<forall>r'\<in>set (messages s). \<not> (qualifying ?p r' \<and> T + 10800000 - 7200000 \<le> timestamp r')"
    by fastforce
  then show "check_human_GET NoFault (T + 10800000) (T + 10800000) (Some phone) s =
                \<lparr>http_status = 200, http_body = Check_ok
                  \<lparr>phoneNumber = ?p, humanActive = False,
                   lastHumanResponseTime = None, hoursRemaining = 0,
                   message = ''No human activity detected - AI can respond''\<rparr>\<rparr>"
    by (rule check_human_none[OF assms])
next
  assume "\<forall>r'\<in>set (messages s). \<not> (qualifying (js_trim (strip_plus_spaces phone)) r'
                \<and> now1 - 7200000 \<le> timestamp r')"
  then show "check_human_GET NoFault now1 now2 (Some phone) s =
                \<lparr>http_status = 200, http_body = Check_ok
                  \<lparr>phoneNumber = js_trim (strip_plus_spaces phone), humanActive = False,
                   lastHumanResponseTime = None, hoursRemaining = 0,
                   message = ''No human activity detected - AI can respond''\<rparr>\<rparr>"
    by (rule check_human_none[OF assms])
qed

text \<open>
  Claim C9. Whenever the store query of \<^verbatim>\<open>GET /api/check-human\<close> resolves with an error
  or throws, the body has \<^verbatim>\<open>humanActive = false\<close> (with status 500; 400 when the phone
  parameter is missing, in which case the store is not asked).
\<close>
theorem check_human_fails_closed:
  assumes "f \<noteq> NoFault"
  shows "body_humanActive (http_body (check_human_GET f now1 now2 phone s)) = False
       \<and> http_status (check_human_GET f now1 now2 phone s)
           = (if phone = None \<or> phone = Some [] then 400 else 500)"
  using assms
  by (cases f; cases phone) (simp_all add: check_human_GET_def select_last_human_def Let_def)

lemma hours_left_mono:
  assumes "b1 \<le> b2"
  shows "hours_left b2 t \<le> hours_left b1 t"
proof -
  have "rat_of_int (b1 - t) \<le> rat_of_int (b2 - t)" using assms by simp
  then have "double (rat_of_int (b1 - t)) \<le> double (rat_of_int (b2 - t))" by (rule double_mono)
  then have "double (rat_of_int (b1 - t)) / 3600000 \<le> double (rat_of_int (b2 - t)) / 3600000"
    by (simp add: divide_right_mono)
  then have "double (double (rat_of_int (b1 - t)) / 3600000)
      \<le> double (double (rat_of_int (b2 - t)) / 3600000)" by (rule double_mono)
  then have "2 - double (double (rat_of_int (b2 - t)) / 3600000)
      \<le> 2 - double (double (rat_of_int (b1 - t)) / 3600000)" by simp
  then have "double (2 - double (double (rat_of_int (b2 - t)) / 3600000))
      \<le> double (2 - double (double (rat_of_int (b1 - t)) / 3600000))" by (rule double_mono)
  then show ?thesis unfolding hours_left_def by (rule max.mono[OF order_refl])
qed

lemma reported_left_mono:
  assumes "b1 \<le> b2"
  shows "reported_left b2 t \<le> reported_left b1 t"
proof -
  have "hours_left b2 t * 100 \<le> hours_left b1 t * 100"
    using hours_left_mono[OF assms, of t] by simp
  then have "double (hours_left b2 t * 100) \<le> double (hours_left b1 t * 100)" by (rule double_mono)
  then have "Math_round (double (hours_left b2 t * 100)) \<le> Math_round (double (hours_left b1 t * 100))"
    by (rule Math_round_mono)
  then have "Math_round (double (hours_left b2 t * 100)) / 100
      \<le> Math_round (double (hours_left b1 t * 100)) / 100" by (simp add: divide_right_mono)
  then show ?thesis unfolding reported_left_def by (rule double_mono)
qed

lemma reported_left_nonneg: "0 \<le> reported_left b t"
proof -
  have "0 \<le> hours_left b t * 100" by (simp add: hours_left_def)
  then have "double 0 \<le> double (hours_left b t * 100)" by (rule double_mono)
  then have "0 \<le> Math_round (double (hours_left b t * 100)) / 100"
    by (simp add: Math_round_nonneg)
  then have "double 0 \<le> double (Math_round (double (hours_left b t * 100)) / 100)"
    by (rule double_mono)
  then show ?thesis by (simp add: reported_left_def)
qed

lemma hours_left_pos:
  assumes "b - t < 7200000"
  shows "0 < hours_left b t"
proof -
  have c: "double (7199999 / 3600000) < 2" by code_simp
  have "b - t \<le> 7199999" using assms by simp
  then have "rat_of_int (b - t) \<le> rat_of_int 7199999" by (simp only: of_int_le_iff)
  then have "double (rat_of_int (b - t)) \<le> double (rat_of_int 7199999)" by (rule double_mono)
  then have "double (rat_of_int (b - t)) \<le> 7199999" by simp
  then have "double (rat_of_int (b - t)) / 3600000 \<le> 7199999 / 3600000"
    by (simp add: divide_right_mono)
  then have "double (double (rat_of_int (b - t)) / 3600000) \<le> double (7199999 / 3600000)"
    by (rule double_mono)
  then have "0 < 2 - double (double (rat_of_int (b - t)) / 3600000)" using c by linarith
  then have "0 < double (2 - double (double (rat_of_int (b - t)) / 3600000))" by (rule double_pos)
  then show ?thesis by (simp add: hours_left_def)
qed

text \<open>
  Claim C4, as amended. For a fixed store and phone number, a later call (each of its two
  clock readings not before the corresponding one of the earlier call) never reports a
  greater \<^verbatim>\<open>hoursRemaining\<close> than the earlier call.
\<close>
theorem hours_remaining_never_increases:
  assumes ph: "phone \<noteq> []" and a: "a1 \<le> a2" and b: "b1 \<le> b2"
  shows "\<exists>h1 h2. reported_hours (check_human_GET NoFault a1 b1 (Some phone) s) = Some h1
            \<and> reported_hours (check_human_GET NoFault a2 b2 (Some phone) s) = Some h2
            \<and> h2 \<le> h1"
proof -
  let ?p = "js_trim (strip_plus_spaces phone)"
  let ?none = "\<lambda>since. \<forall>r\<in>set (messages s). \<not> (qualifying ?p r \<and> since \<le> timestamp r)"
  consider (none1) "?none (a1 - 7200000)"
    | (found1) y1 where "select_last_human NoFault ?p (a1 - 7200000) s = Db_data [y1]"
        "qualifying ?p y1" "y1 \<in> set (messages s)"
        "\<forall>r\<in>set (messages s). qualifying ?p r \<and> a1 - 7200000 \<le> timestamp r \<longrightarrow> timestamp r \<le> timestamp y1"
    using select_cases[of ?p "a1 - 7200000" s] by blast
  then show ?thesis
  proof cases
    case none1
    then have "?none (a2 - 7200000)" using a by fastforce
    then show ?thesis using none1 by (simp add: check_human_none[OF ph])
  next
    case found1
    have r1: "reported_hours (check_human_GET NoFault a1 b1 (Some phone) s)
        = Some (reported_left b1 (timestamp y1))"
      by (simp add: check_human_found[OF ph found1(1), of b1])
    consider (none2) "?none (a2 - 7200000)"
      | (found2) y2 where "select_last_human NoFault ?p (a2 - 7200000) s = Db_data [y2]"
          "qualifying ?p y2" "y2 \<in> set (messages s)" "a2 - 7200000 \<le> timestamp y2"
          "\<forall>r\<in>set (messages s). qualifying ?p r \<and> a2 - 7200000 \<le> timestamp r \<longrightarrow> timestamp r \<le> timestamp y2"
      using select_cases[of ?p "a2 - 7200000" s] by blast
    then show ?thesis
    proof cases
      case none2
      have r2: "reported_hours (check_human_GET NoFault a2 b2 (Some phone) s) = Some 0"
        by (simp add: check_human_none[OF ph none2])
      show ?thesis using r1 r2 reported_left_nonneg[of b1 "timestamp y1"] by simp
    next
      case found2
      have le: "timestamp y2 \<le> timestamp y1" using found1(4) found2(2,3,4) a by fastforce
      then have "a2 - 7200000 \<le> timestamp y1" using found2(4) by simp
      then have "timestamp y1 \<le> timestamp y2" using found2(5) found1(2,3) by blast
      with le have eq: "timestamp y2 = timestamp y1" by simp
      have r2: "reported_hours (check_human_GET NoFault a2 b2 (Some phone) s)
          = Some (reported_left b2 (timestamp y1))"
        by (simp add: check_human_found[OF ph found2(1), of b2] eq)
      show ?thesis using r1 r2 reported_left_mono[OF b, of "timestamp y1"] by simp
    qed
  qed
qed

lemma example_phone_clean: "js_trim (strip_plus_spaces ''+254 700 000001'') = ''254700000001''"
  by code_simp

text \<open>The three answers for a store with one human reply at time 0.\<close>
theorem check_human_window_witness:
  "check_human_GET NoFault 3600000 3600000 (Some ''+254 700 000001'') example_store =
     \<lparr>http_status = 200, http_body = Check_ok
       \<lparr>phoneNumber = ''254700000001'', humanActive = True,
        lastHumanResponseTime = Some 0, hoursRemaining = 1,
        message = ''Human is active - AI should wait 1.0 more hours''\<rparr>\<rparr>
   \<and> check_human_GET NoFault 10800000 10800000 (Some ''+254 700 000001'') example_store =
     \<lparr>http_status = 200, http_body = Check_ok
       \<lparr>phoneNumber = ''254700000001'', humanActive = False,
        lastHumanResponseTime = None, hoursRemaining = 0,
        message = ''No human activity detected - AI can respond''\<rparr>\<rparr>
   \<and> check_human_GET NoFault 10800000 10800001 (Some ''+254 700 000001'') example_store =
     \<lparr>http_status = 200, http_body = Check_ok
       \<lparr>phoneNumber = ''254700000001'', humanActive = False,
        lastHumanResponseTime = None, hoursRemaining = 0,
        message = ''No human activity detected - AI can respond''\<rparr>\<rparr>"
proof -
  have ph: "''+254 700 000001'' \<noteq> []" by simp
  have A: "example_row \<in> set (messages example_store)
      \<and> qualifying (js_trim (strip_plus_spaces ''+254 700 000001'')) example_row
      \<and> timestamp example_row = 0
      \<and> (\<forall>r'\<in>set (messages example_store).
            qualifying (js_trim (strip_plus_spaces ''+254 700 000001'')) r' \<longrightarrow> timestamp r' \<le> 0)"
    by (simp add: example_store_def example_row_def qualifying_def example_phone_clean)
  have D: "\<forall>r'\<in>set (messages example_store).
      \<not> (qualifying (js_trim (strip_plus_spaces ''+254 700 000001'')) r'
         \<and> 10800000 - 7200000 \<le> timestamp r')"
    by (simp add: example_store_def example_row_def qualifying_def example_phone_clean)
  from check_human_window[OF ph, where r = example_row and s = example_store and T = 0
      and ?now1.0 = 10800000 and ?now2.0 = 10800001] A D
  show ?thesis by (simp add: example_phone_clean)
qed

text \<open>
  Claim C4 asks for a strict decrease between any two calls. The reported value is rounded
  to two decimals: one hour and one hour plus a millisecond after the message both
  report 1.
\<close>
theorem hours_remaining_strict_counterexample:
  "(3600000::int) < 3600001
   \<and> reported_hours (check_human_GET NoFault 3600000 3600000 (Some ''254700000001'') example_store) = Some 1
   \<and> reported_hours (check_human_GET NoFault 3600001 3600001 (Some ''254700000001'') example_store) = Some 1
   \<and> \<not> ((1::rat) < 1 \<or> (1::rat) = 0)"
  by code_simp

text \<open>
  Two calls 36 seconds apart, around 1.005 hours left: the product with 100 is just below
  100.5 at the first and just above 99.5 at the second, and both calls report 1.
\<close>
lemma reported_36_seconds_apart:
  "reported_hours (check_human_GET NoFault 3582000 3582000 (Some ''254700000001'') example_store) = Some 1
   \<and> reported_hours (check_human_GET NoFault 3618000 3618000 (Some ''254700000001'') example_store) = Some 1"
  by code_simp

text \<open>Calls 1h and 1h 100s after the message: 1 and then the binary64 number nearest to 0.97.\<close>
theorem hours_remaining_never_increases_witness:
  "reported_hours (check_human_GET NoFault 3600000 3600000 (Some ''254700000001'') example_store) = Some 1
   \<and> reported_hours (check_human_GET NoFault 3700000 3700000 (Some ''254700000001'') example_store)
       = Some (double (97 / 100))
   \<and> double (97 / 100) \<le> 1"
proof -
  have ph: "''254700000001'' \<noteq> []" by simp
  have r1: "reported_hours (check_human_GET NoFault 3600000 3600000 (Some ''254700000001'') example_store) = Some 1"
    by code_simp
  have r2: "reported_hours (check_human_GET NoFault 3700000 3700000 (Some ''254700000001'') example_store)
       = Some (double (97 / 100))"
    by code_simp
  from hours_remaining_never_increases[OF ph, of 3600000 3700000 3600000 3700000 example_store] r1 r2
  show ?thesis by auto
qed

text \<open>A database error on the example store.\<close>
theorem check_human_fails_closed_witness:
  "DbError \<noteq> NoFault
   \<and> body_humanActive (http_body (check_human_GET DbError 3600000 3600000 (Some ''254700000001'') example_store)) = False
   \<and> http_status (check_human_GET DbError 3600000 3600000 (Some ''254700000001'') example_store) = 500"
proof -
  have f: "DbError \<noteq> NoFault" by simp
  from check_human_fails_closed[OF f, of 3600000 3600000 "Some ''254700000001''" example_store] f
  show ?thesis by simp
qed

section \<open>Verification: webhook receiver\<close>

text \<open>
  Claim C5. Every delivery to \<^verbatim>\<open>POST /api/webhook\<close> is answered with status 200 and the body
  \<^verbatim>\<open>{status: "ok"}\<close> or \<^verbatim>\<open>{status: "error"}\<close>: whatever the request body (not JSON, \<^verbatim>\<open>null\<close>, any
  envelope), whichever store call fails or throws, and also when the logging of the error
  in the \<^verbatim>\<open>catch\<close> block fails.
\<close>

theorem webhook_POST_always_200:
  "http_status (fst (webhook_POST fl req s)) = 200
   \<and> (http_body (fst (webhook_POST fl req s)) = Status ''ok''
      \<or> http_body (fst (webhook_POST fl req s)) = Status ''error'')"
  by (simp add: webhook_POST_def split: prod.splits sum.splits)

text \<open>
  Claim C8. \<^verbatim>\<open>GET /api/webhook\<close> answers 200 exactly when \<^verbatim>\<open>hub.mode\<close> is \<^verbatim>\<open>subscribe\<close> and
  \<^verbatim>\<open>hub.verify_token\<close> is the configured verify token, and then the body is the challenge;
  in every other case it answers 403; the store is the same after the call.
\<close>

theorem webhook_GET_verification:
  "(http_status (fst (webhook_GET e mode token challenge s)) = 200
      \<longleftrightarrow> mode = Some ''subscribe'' \<and> (\<exists>t. token = Some t \<and> WEBHOOK_VERIFY_TOKEN e = Some t))
   \<and> (http_status (fst (webhook_GET e mode token challenge s)) = 200
      \<longrightarrow> http_body (fst (webhook_GET e mode token challenge s)) = challenge)
   \<and> (http_status (fst (webhook_GET e mode token challenge s)) \<noteq> 200
      \<longrightarrow> http_status (fst (webhook_GET e mode token challenge s)) = 403)
   \<and> snd (webhook_GET e mode token challenge s) = s"
  by (cases token) (auto simp: webhook_GET_def)

lemma grows_iff: "grows xs ys \<longleftrightarrow> ys = xs \<or> (\<exists>x. ys = xs @ [x] \<and> x \<notin> set xs)"
proof
  assume "grows xs ys"
  then consider "ys = xs" | "ys \<noteq> []" "butlast ys = xs" "last ys \<notin> set xs"
    by (auto simp: grows_def)
  then show "ys = xs \<or> (\<exists>x. ys = xs @ [x] \<and> x \<notin> set xs)"
  proof cases
    case 2
    then have "ys = xs @ [last ys]" by (metis append_butlast_last_id)
    with 2 show ?thesis by blast
  qed simp
next
  assume "ys = xs \<or> (\<exists>x. ys = xs @ [x] \<and> x \<notin> set xs)"
  then show "grows xs ys" by (auto simp: grows_def)
qed

lemma grows_refl [simp]: "grows xs xs"
  by (simp add: grows_iff)









lemma log_tail_ids [simp]:
  "message_ids (snd (case insert_log f l s of
       (Db_throws e, s3) \<Rightarrow> (Inl e, s3)
     | (Db_error, s3) \<Rightarrow> (Inr (), s3)
     | (Db_data u, s3) \<Rightarrow> (Inr (), s3))) = message_ids s"
  by (cases f) (simp_all add: insert_log_def message_ids_def)











text \<open>
  The right token, a wrong token, and no token with no token configured.
\<close>

theorem webhook_GET_verification_witness:
  "http_status (fst (webhook_GET example_env (Some ''subscribe'') (Some ''s3cret'') (Some ''1158201444'') example_store)) = 200
   \<and> http_body (fst (webhook_GET example_env (Some ''subscribe'') (Some ''s3cret'') (Some ''1158201444'') example_store)) = Some ''1158201444''
   \<and> snd (webhook_GET example_env (Some ''subscribe'') (Some ''s3cret'') (Some ''1158201444'') example_store) = example_store
   \<and> http_status (fst (webhook_GET example_env (Some ''subscribe'') (Some ''wrong'') (Some ''1158201444'') example_store)) = 403
   \<and> http_status (fst (webhook_GET (example_env\<lparr>WEBHOOK_VERIFY_TOKEN := None\<rparr>) (Some ''subscribe'') None (Some ''1158201444'') example_store)) = 403"
proof -
  have t: "WEBHOOK_VERIFY_TOKEN example_env = Some ''s3cret''" by (simp add: example_env_def)
  show ?thesis
    using webhook_GET_verification[of example_env "Some ''subscribe''" "Some ''s3cret''" "Some ''1158201444''" example_store]
      webhook_GET_verification[of example_env "Some ''subscribe''" "Some ''wrong''" "Some ''1158201444''" example_store]
      webhook_GET_verification[of "example_env\<lparr>WEBHOOK_VERIFY_TOKEN := None\<rparr>" "Some ''subscribe''" None "Some ''1158201444''" example_store]
      t
    by simp
qed

lemmas webhook_eval = webhook_POST_def webhook_POST_try_def storeInboundMessage_def insert_log_def
  insert_message_def row_of_def message_content_def first_value_def first_change_def
  seconds_toISOString_def js_parseInt_def is_space_def digit_value_def Let_def
  timestamptz_accepts_def example_event_def far_future_event_def example_store_def
  example_row_def no_faults_def store_down_def store_errors_def



text \<open>
  The store unreachable and the error log failing; a body that is not JSON; a \<^verbatim>\<open>null\<close> body.
\<close>

theorem webhook_POST_always_200_witness:
  "http_status (fst (webhook_POST store_down (Json_body example_event) example_store)) = 200
   \<and> http_body (fst (webhook_POST store_down (Json_body example_event) example_store)) = Status ''error''
   \<and> http_status (fst (webhook_POST store_down (Not_json ''Unexpected end of JSON input'') example_store)) = 200
   \<and> http_status (fst (webhook_POST no_faults Json_null example_store)) = 200"
proof -
  have "http_body (fst (webhook_POST store_down (Json_body example_event) example_store)) = Status ''error''"
    by (simp add: webhook_eval)
  with webhook_POST_always_200[of store_down "Json_body example_event" example_store]
    webhook_POST_always_200[of store_down "Not_json ''Unexpected end of JSON input''" example_store]
    webhook_POST_always_200[of no_faults Json_null example_store]
  show ?thesis by simp
qed

section \<open>Verification: send endpoint and conversation aggregator\<close>

text \<open>
  Claim C6. A \<^verbatim>\<open>POST /api/messages/send\<close> whose \<^verbatim>\<open>body\<close> is empty, \<^verbatim>\<open>null\<close> or missing, or whose
  \<^verbatim>\<open>to\<close> is, is answered with status 400 and the error
  \<^verbatim>\<open>Missing required fields: to, body\<close>, and the store is as it was: no row is written.
\<close>

theorem send_rejects_empty:
  assumes "\<not> truthy (req_to r) \<or> \<not> truthy (req_body r)"
  shows "send_POST e outcome f now_id now_row (Send_object r) s =
     (\<lparr>http_status = 400, http_body = Send_error ''Missing required fields: to, body''\<rparr>, s)"
  using assms by (auto simp: send_POST_def)

text \<open>
  An empty body, and an empty recipient.
\<close>

theorem send_rejects_empty_witness:
  "send_POST example_env (Reply True (Val example_reply)) NoFault 1700000000000 1700000000000
     (Send_object (example_send\<lparr>req_body := Val []\<rparr>)) example_store =
     (\<lparr>http_status = 400, http_body = Send_error ''Missing required fields: to, body''\<rparr>, example_store)
   \<and> send_POST example_env (Reply True (Val example_reply)) NoFault 1700000000000 1700000000000
     (Send_object (example_send\<lparr>req_to := Val []\<rparr>)) example_store =
     (\<lparr>http_status = 400, http_body = Send_error ''Missing required fields: to, body''\<rparr>, example_store)"
proof -
  have 1: "\<not> truthy (req_to (example_send\<lparr>req_body := Val []\<rparr>)) \<or> \<not> truthy (req_body (example_send\<lparr>req_body := Val []\<rparr>))"
    by simp
  have 2: "\<not> truthy (req_to (example_send\<lparr>req_to := Val []\<rparr>)) \<or> \<not> truthy (req_body (example_send\<lparr>req_to := Val []\<rparr>))"
    by simp
  from send_rejects_empty[OF 1] send_rejects_empty[OF 2] show ?thesis by simp
qed

text \<open>
  Claim C7. With the credentials configured, when the provider answers with a status that is
  not a success, \<^verbatim>\<open>sendWhatsAppMessage\<close> throws an error whose message is the provider's
  \<^verbatim>\<open>error.message\<close> when there is one (\<^verbatim>\<open>Failed to send message\<close> otherwise) and leaves
  the store as it was; the endpoint answers a valid request with status 500 and that message
  as its \<^verbatim>\<open>error\<close>. Whatever the JSON of the failed reply (also \<^verbatim>\<open>null\<close>), the answer is a
  500 and the store is unchanged.
\<close>

theorem provider_failure_no_row:
  assumes "\<not> not_set (WHATSAPP_PHONE_NUMBER_ID e)" and "\<not> not_set (WHATSAPP_ACCESS_TOKEN e)"
  shows "sendWhatsAppMessage e (Reply False (Val d)) f now_id now_row to_arg body_arg ai s =
           (Inl (or_else (opt_chain (d_error d) ge_message) ''Failed to send message''), s)
       \<and> (truthy (req_to r) \<and> truthy (req_body r) \<longrightarrow>
           send_POST e (Reply False (Val d)) f now_id now_row (Send_object r) s =
             (\<lparr>http_status = 500, http_body =
                Send_error (or_else (opt_chain (d_error d) ge_message) ''Failed to send message'')\<rparr>, s))
       \<and> snd (sendWhatsAppMessage e (Reply False data) f now_id now_row to_arg body_arg ai s) = s
       \<and> (truthy (req_to r) \<and> truthy (req_body r) \<longrightarrow>
           http_status (fst (send_POST e (Reply False data) f now_id now_row (Send_object r) s)) = 500
           \<and> snd (send_POST e (Reply False data) f now_id now_row (Send_object r) s) = s)"
  using assms by (cases data) (simp_all add: sendWhatsAppMessage_def send_POST_def)

text \<open>
  A rejected recipient.
\<close>

theorem provider_failure_no_row_witness:
  "send_POST example_env (Reply False (Val example_failure)) NoFault 1700000000000 1700000000000
     (Send_object example_send) example_store =
     (\<lparr>http_status = 500, http_body =
        Send_error ''(#131030) Recipient phone number not in allowed list''\<rparr>, example_store)"
proof -
  have a: "\<not> not_set (WHATSAPP_PHONE_NUMBER_ID example_env)" "\<not> not_set (WHATSAPP_ACCESS_TOKEN example_env)"
    by (simp_all add: example_env_def)
  have b: "truthy (req_to example_send) \<and> truthy (req_body example_send)"
    by (simp add: example_send_def)
  have c: "or_else (opt_chain (d_error example_failure) ge_message) ''Failed to send message''
      = ''(#131030) Recipient phone number not in allowed list''"
    by (simp add: example_failure_def)
  from provider_failure_no_row[OF a, of example_failure _ _ _ _ _ _ _ example_send] b c
  show ?thesis by simp
qed

lemma dropWhile_none: "\<forall>x\<in>set xs. \<not> P x \<Longrightarrow> dropWhile P xs = xs"
  by (cases xs) auto

lemma js_trim_strip: "js_trim (strip_plus_spaces x) = strip_plus_spaces x"
proof -
  have a: "\<forall>c\<in>set (strip_plus_spaces x). \<not> is_space c" by (simp add: strip_plus_spaces_def)
  then have b: "\<forall>c\<in>set (rev (strip_plus_spaces x)). \<not> is_space c" by simp
  show ?thesis
    unfolding js_trim_def by (simp only: dropWhile_none[OF a] dropWhile_none[OF b] rev_rev_ident)
qed

lemma snd_send_case:
  "snd (case p of
        (Db_throws err, s') \<Rightarrow> (Inl err, s')
      | (Db_error, s') \<Rightarrow> (Inr x, s')
      | (Db_data rows, s') \<Rightarrow> (Inr x, s')) = snd p"
  by (cases p) (auto split: db_result.splits)

lemma sendWhatsAppMessage_store:
  "snd (sendWhatsAppMessage e outcome f now_id now_row to_arg body_arg ai s) = s
   \<or> (\<exists>v. ins_is_ai_response v = ai \<and> ins_direction v = Outbound
          \<and> ins_phone_number v = Val (strip_plus_spaces to_arg) \<and> ins_timestamp v = now_row
          \<and> snd (sendWhatsAppMessage e outcome f now_id now_row to_arg body_arg ai s)
               = snd (insert_message f v s))"
proof (cases outcome)
  case (Reply ok data)
  show ?thesis
  proof (cases data)
    case (Val d)
    define v where "v = \<lparr>ins_message_id = Val (or_else (opt_chain (first (d_messages d)) gm_id)
                                            (''msg_'' @ show_int now_id)),
                   ins_phone_number = Val (strip_plus_spaces to_arg),
                   ins_from_number = Val (env_value (WHATSAPP_PHONE_NUMBER_ID e)),
                   ins_to_number = Val (strip_plus_spaces to_arg),
                   ins_body = Val body_arg, ins_direction = Outbound, ins_status = Val ''sent'',
                   ins_timestamp = now_row, ins_message_type = Val ''text'',
                   ins_media_url = Undefined, ins_media_mime_type = Undefined,
                   ins_caption = Undefined, ins_is_ai_response = ai,
                   ins_metadata = Graph_reply d\<rparr>"
    have "snd (sendWhatsAppMessage e outcome f now_id now_row to_arg body_arg ai s) = s
          \<or> snd (sendWhatsAppMessage e outcome f now_id now_row to_arg body_arg ai s)
               = snd (insert_message f v s)"
      using Reply Val by (simp add: sendWhatsAppMessage_def snd_send_case v_def)
    moreover have "ins_is_ai_response v = ai \<and> ins_direction v = Outbound
       \<and> ins_phone_number v = Val (strip_plus_spaces to_arg) \<and> ins_timestamp v = now_row"
      by (simp add: v_def)
    ultimately show ?thesis by blast
  qed (simp_all add: Reply sendWhatsAppMessage_def)
qed (simp_all add: sendWhatsAppMessage_def)

lemma insert_message_rows:
  "messages (snd (insert_message f v s)) = messages s
   \<or> (\<exists>row. messages (snd (insert_message f v s)) = messages s @ [row]
        \<and> row_of v = Some row)"
  by (cases f) (auto simp: insert_message_def split: option.splits)

lemma row_of_fields:
  assumes "row_of v = Some row"
  shows "is_ai_response row = ins_is_ai_response v" "direction row = ins_direction v"
    "timestamp row = ins_timestamp v" "phone_number row = js_String (ins_phone_number v)"
  using assms by (auto simp: row_of_def split: if_splits)

lemma snd_send_POST:
  "snd (send_POST e outcome f now_id now_row (Send_object r) s) = s
   \<or> (truthy (req_to r)
      \<and> snd (send_POST e outcome f now_id now_row (Send_object r) s)
          = snd (sendWhatsAppMessage e outcome f now_id now_row (js_String (req_to r))
                  (js_String (req_body r)) (or_false (req_isAiResponse r)) s))"
  by (auto simp: send_POST_def split: prod.splits sum.splits)

lemma send_POST_rows:
  "messages (snd (send_POST e outcome f now_id now_row (Send_object r) s)) = messages s
   \<or> (\<exists>row. messages (snd (send_POST e outcome f now_id now_row (Send_object r) s))
               = messages s @ [row]
        \<and> is_ai_response row = or_false (req_isAiResponse r) \<and> direction row = Outbound
        \<and> phone_number row = strip_plus_spaces (js_String (req_to r))
        \<and> timestamp row = now_row \<and> truthy (req_to r))"
proof -
  let ?s' = "snd (send_POST e outcome f now_id now_row (Send_object r) s)"
  let ?sw = "snd (sendWhatsAppMessage e outcome f now_id now_row (js_String (req_to r))
                  (js_String (req_body r)) (or_false (req_isAiResponse r)) s)"
  consider "?s' = s" | "truthy (req_to r)" "?s' = ?sw"
    using snd_send_POST[of e outcome f now_id now_row r s] by blast
  then show ?thesis
  proof cases
    case 1
    then show ?thesis by simp
  next
    case 2
    consider "?sw = s"
      | v where "ins_is_ai_response v = or_false (req_isAiResponse r)" "ins_direction v = Outbound"
          "ins_phone_number v = Val (strip_plus_spaces (js_String (req_to r)))"
          "ins_timestamp v = now_row" "?sw = snd (insert_message f v s)"
      using sendWhatsAppMessage_store[of e outcome f now_id now_row "js_String (req_to r)"
          "js_String (req_body r)" "or_false (req_isAiResponse r)" s] by blast
    then show ?thesis
    proof cases
      case 1
      then show ?thesis using 2 by simp
    next
      case (2 v)
      note v = this
      show ?thesis
        using insert_message_rows[of f v s] row_of_fields[of v] v \<open>truthy (req_to r)\<close> \<open>?s' = ?sw\<close>
        by auto
    qed
  qed
qed

lemma or_false_falsy: "fl \<noteq> Flag_bool True \<Longrightarrow> or_false fl = False"
  by (cases fl) auto

lemma send_POST_persists:
  assumes "\<not> not_set (WHATSAPP_PHONE_NUMBER_ID e)" and "\<not> not_set (WHATSAPP_ACCESS_TOKEN e)"
    and "truthy (req_to r)" and "truthy (req_body r)"
    and "or_else (opt_chain (first (d_messages d)) gm_id) (''msg_'' @ show_int now_id)
           \<notin> set (message_ids s)"
    and "timestamptz_accepts now_row"
  shows "send_POST e (Reply True (Val d)) NoFault now_id now_row (Send_object r) s =
     (\<lparr>http_status = 200, http_body = Send_ok (Val d)\<rparr>,
      s\<lparr>messages := messages s @
        [\<lparr>message_id = or_else (opt_chain (first (d_messages d)) gm_id) (''msg_'' @ show_int now_id),
          phone_number = strip_plus_spaces (js_String (req_to r)),
          from_number = env_value (WHATSAPP_PHONE_NUMBER_ID e),
          to_number = strip_plus_spaces (js_String (req_to r)),
          body = Some (js_String (req_body r)), direction = Outbound, status = Some ''sent'',
          timestamp = now_row, message_type = Some ''text'', media_url = None,
          media_mime_type = None, caption = None,
          is_ai_response = or_false (req_isAiResponse r), metadata = Graph_reply d\<rparr>]\<rparr>)"
  using assms
  by (simp add: send_POST_def sendWhatsAppMessage_def insert_message_def row_of_def message_ids_def)

text \<open>
  Claim C10. A send whose request omits \<^verbatim>\<open>isAiResponse\<close> or gives it a falsy value, that
  the provider accepts and whose row the store accepts (credentials configured, recipient
  and body given, a provider reply that is a success, a message id the table does not
  have yet, a store that answers) is answered with status 200 and writes exactly one row:
  outbound, for the cleaned recipient, at the time of the send, with
  \<^verbatim>\<open>is_ai_response = false\<close>. From then on a check-human call for the recipient whose
  window contains the send (less than two hours later) answers \<^verbatim>\<open>humanActive = true\<close>.
  And whatever the provider and the store do, a send with such a request writes no row
  other than one of that kind.
\<close>

theorem falsy_flag_recorded_as_human:
  assumes fl: "req_isAiResponse r \<noteq> Flag_bool True"
    and cr: "\<not> not_set (WHATSAPP_PHONE_NUMBER_ID e)" "\<not> not_set (WHATSAPP_ACCESS_TOKEN e)"
    and tr: "truthy (req_to r)" "truthy (req_body r)"
    and fresh: "or_else (opt_chain (first (d_messages d)) gm_id) (''msg_'' @ show_int now_id)
           \<notin> set (message_ids s)"
    and ts: "timestamptz_accepts now_row"
    and s': "s' = snd (send_POST e (Reply True (Val d)) NoFault now_id now_row (Send_object r) s)"
    and s'': "s'' = snd (send_POST e outcome f now_id now_row (Send_object r) s)"
  shows "http_status (fst (send_POST e (Reply True (Val d)) NoFault now_id now_row (Send_object r) s)) = 200
       \<and> (\<exists>row. messages s' = messages s @ [row] \<and> is_ai_response row = False
              \<and> direction row = Outbound
              \<and> phone_number row = strip_plus_spaces (js_String (req_to r))
              \<and> timestamp row = now_row)
       \<and> (now1 - 7200000 \<le> now_row \<and> now2 - now_row < 7200000
          \<longrightarrow> body_humanActive
                (http_body (check_human_GET NoFault now1 now2 (Some (js_String (req_to r))) s')) = True)
       \<and> (messages s'' = messages s
          \<or> (\<exists>row. messages s'' = messages s @ [row] \<and> is_ai_response row = False
                \<and> direction row = Outbound
                \<and> phone_number row = strip_plus_spaces (js_String (req_to r))
                \<and> timestamp row = now_row))"
proof (intro conjI impI)
  let ?to = "js_String (req_to r)"
  let ?p = "strip_plus_spaces ?to"
  note p = send_POST_persists[OF cr tr fresh ts]
  show "http_status (fst (send_POST e (Reply True (Val d)) NoFault now_id now_row (Send_object r) s)) = 200"
    by (simp add: p)
  obtain row where row: "messages s' = messages s @ [row]" "is_ai_response row = False"
      "direction row = Outbound" "phone_number row = ?p" "timestamp row = now_row"
    using or_false_falsy[OF fl] by (simp add: s' p)
  then show "\<exists>row. messages s' = messages s @ [row] \<and> is_ai_response row = False
              \<and> direction row = Outbound \<and> phone_number row = ?p \<and> timestamp row = now_row"
    by blast
  show "messages s'' = messages s
          \<or> (\<exists>row. messages s'' = messages s @ [row] \<and> is_ai_response row = False
                \<and> direction row = Outbound \<and> phone_number row = ?p \<and> timestamp row = now_row)"
    using send_POST_rows[of e outcome f now_id now_row r s] or_false_falsy[OF fl] s'' by auto
  assume a: "now1 - 7200000 \<le> now_row \<and> now2 - now_row < 7200000"
  have ne: "?to \<noteq> []" using tr(1) by (cases "req_to r") auto
  have q: "row \<in> set (messages s')" "qualifying ?p row" "now1 - 7200000 \<le> timestamp row"
    using row a by (auto simp: qualifying_def)
  from select_cases[of ?p "now1 - 7200000" s'] q
  obtain y where y: "select_last_human NoFault ?p (now1 - 7200000) s' = Db_data [y]"
    and le: "timestamp row \<le> timestamp y" by blast
  have y': "select_last_human NoFault (js_trim ?p) (now1 - 7200000) s' = Db_data [y]"
    using y by (simp add: js_trim_strip)
  have "now2 - timestamp y < 7200000" using le row(5) a by simp
  then have "0 < hours_left now2 (timestamp y)" by (rule hours_left_pos)
  then show "body_humanActive
      (http_body (check_human_GET NoFault now1 now2 (Some ?to) s')) = True"
    by (simp add: check_human_found[OF ne y'])
qed

lemmas send_eval = send_POST_def sendWhatsAppMessage_def insert_message_def row_of_def
  timestamptz_accepts_def strip_plus_spaces_def is_space_def example_env_def example_reply_def
  example_send_def example_store_def example_row_def

lemma example_sent:
  "messages (snd (send_POST example_env (Reply True (Val example_reply)) NoFault
      1700000000000 1700000000000 (Send_object example_send) example_store))
   = messages example_store @ [example_sent_row]"
  by (simp add: send_eval example_sent_row_def)

text \<open>
  The example request: the row written, and the check one hour later.
\<close>

theorem falsy_flag_recorded_as_human_witness:
  "http_status (fst (send_POST example_env (Reply True (Val example_reply)) NoFault
      1700000000000 1700000000000 (Send_object example_send) example_store)) = 200
   \<and> messages (snd (send_POST example_env (Reply True (Val example_reply)) NoFault
      1700000000000 1700000000000 (Send_object example_send) example_store))
     = messages example_store @ [example_sent_row]
   \<and> is_ai_response example_sent_row = False
   \<and> body_humanActive (http_body (check_human_GET NoFault 1700003600000 1700003600000
        (Some ''+254 700 000002'')
        (snd (send_POST example_env (Reply True (Val example_reply)) NoFault
           1700000000000 1700000000000 (Send_object example_send) example_store)))) = True"
proof -
  let ?s' = "snd (send_POST example_env (Reply True (Val example_reply)) NoFault
      1700000000000 1700000000000 (Send_object example_send) example_store)"
  have fl: "req_isAiResponse example_send \<noteq> Flag_bool True" by (simp add: example_send_def)
  have cr: "\<not> not_set (WHATSAPP_PHONE_NUMBER_ID example_env)"
    "\<not> not_set (WHATSAPP_ACCESS_TOKEN example_env)" by (simp_all add: example_env_def)
  have tr: "truthy (req_to example_send)" "truthy (req_body example_send)"
    by (simp_all add: example_send_def)
  have fresh: "or_else (opt_chain (first (d_messages example_reply)) gm_id)
      (''msg_'' @ show_int 1700000000000) \<notin> set (message_ids example_store)"
    by (simp add: example_reply_def message_ids_def example_store_def example_row_def)
  have ts: "timestamptz_accepts 1700000000000" by (simp add: timestamptz_accepts_def)
  have to: "js_String (req_to example_send) = ''+254 700 000002''" by (simp add: example_send_def)
  have w: "1700003600000 - 7200000 \<le> (1700000000000::int)
      \<and> (1700003600000::int) - 1700000000000 < 7200000" by simp
  from falsy_flag_recorded_as_human[OF fl cr tr fresh ts refl refl,
      of 1700003600000 1700003600000 "Reply True (Val example_reply)" NoFault] w to example_sent
  show ?thesis by (simp add: example_sent_row_def)
qed

text \<open>
  \<^verbatim>\<open>GET /api/messages/fetch\<close> puts the counterparty of an outbound row in \<^verbatim>\<open>from\<close> and the
  business number in \<^verbatim>\<open>to\<close>; the page then reads \<^verbatim>\<open>to\<close> for an outbound message. The key
  is the row's \<^verbatim>\<open>from_number\<close> in both directions.
\<close>

lemma group_key_is_from_number:
  "group_key (format_message msg) = remove_first ''whatsapp:'' (from_number msg)"
  by (simp add: group_key_def format_message_def)

lemmas fetch_eval = fetchMessages_def messages_fetch_GET_def getMessages_def order_desc_def
  format_message_def group_key_def Object_prototype_keys_def Object_entries_def
  is_array_index_def digit_value_def conversation_of_def

lemma conversation_store_rows:
  "map (\<lambda>r. (message_id r, direction r, from_number r, to_number r, phone_number r))
     (messages conversation_store)
   = [(''wamid.OUT1'', Outbound, ''1055'', ''254700000001'', ''254700000001''),
      (''wamid.IN1'', Inbound, ''254700000001'', ''1055'', ''254700000001'')]"
  by (simp add: conversation_store_def webhook_eval send_eval)

text \<open>
  Claim C1 says that an outbound message sent to a counterparty is grouped under that
  counterparty. The code does not do that: after a send to 254700000001 (business phone
  number id 1055) and an inbound message from 254700000001, the page builds two
  conversations, and the outbound message is in the one keyed 1055.
\<close>

theorem outbound_grouped_under_business_number:
  "map (\<lambda>r. (message_id r, direction r, to_number r)) (messages conversation_store)
     = [(''wamid.OUT1'', Outbound, ''254700000001''), (''wamid.IN1'', Inbound, ''1055'')]
   \<and> map_sum id (map (\<lambda>c. (conv_phoneNumber c, map sid (conv_messages c))))
       (fetchMessages (messages_fetch_GET NoFault conversation_store))
     = Inr [(''254700000001'', [''wamid.IN1'']), (''1055'', [''wamid.OUT1''])]"
  by (simp add: conversation_store_def webhook_eval send_eval fetch_eval)

end
